theory Spec2Isabelle
  imports Main
begin

section \<open>Gateway key cache (api-gateway/middleware/auth.js)\<close>

text \<open>
  The gateway keeps two module-level variables, \<open>publicKey\<close> and
  \<open>publicKeyLastFetched\<close>, both initially \<open>null\<close>. They are the fields of
  the record \<open>cache\<close>; \<open>None\<close> stands for JavaScript's \<open>null\<close> or
  \<open>undefined\<close>. Key material is a string (a PEM text), time is the integer
  number of milliseconds that \<open>Date.now()\<close> returns.
\<close>

record cache =
  publicKey :: "string option"
  publicKeyLastFetched :: "int option"

definition initial_cache :: cache where
  "initial_cache = \<lparr>publicKey = None, publicKeyLastFetched = None\<rparr>"

definition PUBLIC_KEY_CACHE_DURATION :: int where
  "PUBLIC_KEY_CACHE_DURATION = 3600000"

text \<open>
  A thrown JavaScript error, with its \<open>name\<close> and \<open>message\<close> properties.
  \<open>new Error(m)\<close> has the name \<open>Error\<close>.
\<close>

datatype js_error = JsError (err_name: string) (err_message: string)

definition Error :: "string \<Rightarrow> js_error" where
  "Error m = JsError ''Error'' m"

text \<open>
  What \<open>axios.get(url)\<close> does when it is called: it rejects (network error,
  timeout, non-2xx status, or a body without a readable \<open>data.publicKey\<close>
  access), or it resolves and \<open>response.data.publicKey\<close> is read, which is a
  string or \<open>undefined\<close>. The network is a function from the URL to that
  outcome.
\<close>

datatype net_reply = NetFailure | NetData "string option"

type_synonym network = "string \<Rightarrow> net_reply"

definition network_down :: network where
  "network_down url = NetFailure"

text \<open>JavaScript truthiness of a string-or-null and of a number-or-null.\<close>

definition truthy_string :: "string option \<Rightarrow> bool" where
  "truthy_string v = (case v of None \<Rightarrow> False | Some s \<Rightarrow> s \<noteq> [])"

definition truthy_number :: "int option \<Rightarrow> bool" where
  "truthy_number v = (case v of None \<Rightarrow> False | Some n \<Rightarrow> n \<noteq> 0)"

text \<open>
  The two variables of \<open>process.env\<close> that the gateway reads, and JavaScript's
  \<open>a || b\<close> on a string-or-undefined \<open>a\<close>.
\<close>

record environment =
  REST_API_URL :: "string option"
  GRAPHQL_API_URL :: "string option"

definition no_environment :: environment where
  "no_environment = \<lparr>REST_API_URL = None, GRAPHQL_API_URL = None\<rparr>"

definition or_default :: "string option \<Rightarrow> string \<Rightarrow> string" where
  "or_default v d = (case v of None \<Rightarrow> d | Some s \<Rightarrow> if s = [] then d else s)"

text \<open>\<open>process.env.REST_API_URL || 'http://localhost:3001'\<close>\<close>

definition restApiUrl :: "environment \<Rightarrow> string" where
  "restApiUrl env = or_default (REST_API_URL env) ''http://localhost:3001''"

definition public_key_url :: "environment \<Rightarrow> string" where
  "public_key_url env = restApiUrl env @ ''/api/auth/public-key''"

text \<open>
  The test of line 13:
  \<open>publicKey && publicKeyLastFetched && (now - publicKeyLastFetched < PUBLIC_KEY_CACHE_DURATION)\<close>.
\<close>

definition cache_valid :: "cache \<Rightarrow> int \<Rightarrow> bool" where
  "cache_valid c now =
     (truthy_string (publicKey c) \<and> truthy_number (publicKeyLastFetched c) \<and>
      (case publicKeyLastFetched c of
         None \<Rightarrow> False
       | Some t \<Rightarrow> now - t < PUBLIC_KEY_CACHE_DURATION))"

definition unable_to_fetch :: js_error where
  "unable_to_fetch = Error ''Unable to fetch public key for JWT verification''"

text \<open>
  \<open>fetchPublicKey\<close>. It returns the value or the thrown error, the cache after
  the call, and the list of URLs on which \<open>axios.get\<close> was called during the
  call (the network effect, made observable).
\<close>

definition fetchPublicKey ::
  "environment \<Rightarrow> network \<Rightarrow> int \<Rightarrow> cache \<Rightarrow> (js_error + string option) \<times> cache \<times> string list" where
  "fetchPublicKey env net now c =
     (if cache_valid c now then (Inr (publicKey c), c, [])
      else
        (case net (public_key_url env) of
           NetData k \<Rightarrow>
             (Inr k, c\<lparr>publicKey := k, publicKeyLastFetched := Some now\<rparr>, [public_key_url env])
         | NetFailure \<Rightarrow> (Inl unable_to_fetch, c, [public_key_url env])))"

text \<open>A sequence of calls at the given times, threading the cache through.\<close>

fun fetch_repeatedly ::
  "environment \<Rightarrow> network \<Rightarrow> int list \<Rightarrow> cache \<Rightarrow>
     (js_error + string option) list \<times> cache \<times> string list" where
  "fetch_repeatedly env net [] c = ([], c, [])"
| "fetch_repeatedly env net (now # nows) c =
     (case fetchPublicKey env net now c of
        (r, c', urls) \<Rightarrow>
          (case fetch_repeatedly env net nows c' of
             (rs, c'', urls') \<Rightarrow> (r # rs, c'', urls @ urls')))"

section \<open>Verification middleware (api-gateway/middleware/auth.js)\<close>

text \<open>
  An inbound request: method, path and the header object \<open>req.headers\<close>, whose keys
  are the lower-cased header names. A header that is absent, or that has been assigned
  \<open>undefined\<close>, reads as \<open>None\<close>. Two more fields record what is decided about the
  request before any route of the gateway sees it:
  \<^item> \<open>req_upgrade\<close>: the request asks for a protocol upgrade (WebSocket) and Node
    delivers it to the listener for the server's \<open>upgrade\<close> event, which
    \<open>graphqlApiProxy\<close> subscribes because of its option \<open>ws: true\<close> (it does so
    when a first request has reached that proxy);
  \<^item> \<open>rate_limited\<close>: the rate limiter has counted this client's address over its
    limit (100 requests in 15 minutes).
\<close>

record request =
  req_method :: string
  req_path :: string
  headers :: "string \<rightharpoonup> string"
  req_upgrade :: bool
  rate_limited :: bool

text \<open>
  The object that was signed (\<open>userId\<close>, \<open>email\<close>, \<open>role\<close>) and the decoded
  payload that \<open>jwt.verify\<close> returns, which carries the registered claims
  \<open>iat\<close> and \<open>exp\<close> (in seconds) as well. A property that is missing reads as
  \<open>undefined\<close>, that is \<open>None\<close>.
\<close>

record claims =
  userId :: "string option"
  email :: "string option"
  role :: "string option"

record payload = claims +
  iat :: "int option"
  exp :: "int option"

text \<open>
  \<open>jwt.verify(token, key, {algorithms})\<close> belongs to the package jsonwebtoken, which
  is not part of the repository. The middleware takes it as a parameter: a function of
  the token, the key and the accepted algorithms that returns the decoded payload or
  the error it throws.
\<close>

type_synonym jwt_verify = "string \<Rightarrow> string option \<Rightarrow> string list \<Rightarrow> js_error + payload"

text \<open>
  The responses that the code of the gateway and the middleware it installs send, and
  their HTTP status: the JSON error bodies of \<open>verifyJWT\<close>, the body of the catch-all
  route (\<open>res.status(404)\<close>), the health report, the empty answer 204 with which the
  CORS middleware ends a preflight (OPTIONS) request, and the answer 429 of the rate
  limiter with its configured message.
\<close>

datatype reply =
    JsonError nat string string
  | RouteNotFound "string list"
  | Healthy int string string
  | Preflight
  | TooManyRequests string

fun status :: "reply \<Rightarrow> nat" where
  "status (JsonError code err msg) = code"
| "status (RouteNotFound routes) = 404"
| "status (Healthy ts users tasks) = 200"
| "status Preflight = 204"
| "status (TooManyRequests msg) = 429"

text \<open>A middleware either calls \<open>next()\<close> with the request as it then is, or responds.\<close>

datatype mw_result = Next request | Responded reply

definition startsWith :: "string \<Rightarrow> string \<Rightarrow> bool" where
  "startsWith s p = (take (length p) s = p)"

definition substring :: "string \<Rightarrow> nat \<Rightarrow> string" where
  "substring s n = drop n s"

definition no_token_provided :: reply where
  "no_token_provided = JsonError 401 ''Unauthorized'' ''No token provided''"

definition invalid_token :: reply where
  "invalid_token = JsonError 401 ''Unauthorized'' ''Invalid token''"

definition token_expired :: reply where
  "token_expired = JsonError 401 ''Unauthorized'' ''Token expired''"

definition token_verification_failed :: reply where
  "token_verification_failed = JsonError 500 ''Internal server error'' ''Token verification failed''"

text \<open>The \<open>catch\<close> block of \<open>verifyJWT\<close> (lines 57 to 75).\<close>

definition verify_catch :: "js_error \<Rightarrow> reply" where
  "verify_catch error =
     (if err_name error = ''JsonWebTokenError'' then invalid_token
      else if err_name error = ''TokenExpiredError'' then token_expired
      else token_verification_failed)"

text \<open>Lines 52 to 54: the three assignments to \<open>req.headers\<close>.\<close>

definition annotate :: "request \<Rightarrow> payload \<Rightarrow> request" where
  "annotate req decoded =
     req\<lparr>headers := (headers req)
       (''x-user-id'' := userId decoded,
        ''x-user-email'' := email decoded,
        ''x-user-role'' := role decoded)\<rparr>"

text \<open>
  \<open>verifyJWT\<close>: the result, the cache after the call and the URLs fetched.
\<close>

definition verifyJWT ::
  "jwt_verify \<Rightarrow> environment \<Rightarrow> network \<Rightarrow> int \<Rightarrow> cache \<Rightarrow> request \<Rightarrow>
     mw_result \<times> cache \<times> string list" where
  "verifyJWT jv env net now c req =
     (case headers req ''authorization'' of
        None \<Rightarrow> (Responded no_token_provided, c, [])
      | Some authHeader \<Rightarrow>
          if authHeader = [] \<or> \<not> startsWith authHeader ''Bearer ''
          then (Responded no_token_provided, c, [])
          else
            (case fetchPublicKey env net now c of
               (Inl error, c', urls) \<Rightarrow> (Responded (verify_catch error), c', urls)
             | (Inr key, c', urls) \<Rightarrow>
                 (case jv (substring authHeader 7) key [''RS256''] of
                    Inl error \<Rightarrow> (Responded (verify_catch error), c', urls)
                  | Inr decoded \<Rightarrow> (Next (annotate req decoded), c', urls))))"

text \<open>
  \<open>optionalJWT\<close>: the same steps, but a missing header and every caught error end in
  \<open>next()\<close>, with \<open>req\<close> as it was received.
\<close>

definition optionalJWT ::
  "jwt_verify \<Rightarrow> environment \<Rightarrow> network \<Rightarrow> int \<Rightarrow> cache \<Rightarrow> request \<Rightarrow>
     mw_result \<times> cache \<times> string list" where
  "optionalJWT jv env net now c req =
     (case headers req ''authorization'' of
        None \<Rightarrow> (Next req, c, [])
      | Some authHeader \<Rightarrow>
          if authHeader = [] \<or> \<not> startsWith authHeader ''Bearer ''
          then (Next req, c, [])
          else
            (case fetchPublicKey env net now c of
               (Inl error, c', urls) \<Rightarrow> (Next req, c', urls)
             | (Inr key, c', urls) \<Rightarrow>
                 (case jv (substring authHeader 7) key [''RS256''] of
                    Inl error \<Rightarrow> (Next req, c', urls)
                  | Inr decoded \<Rightarrow> (Next (annotate req decoded), c', urls))))"

text \<open>The header that a middleware result hands on, if it hands the request on at all.\<close>

definition forwarded_header :: "mw_result \<Rightarrow> string \<Rightarrow> string option" where
  "forwarded_header r h = (case r of Next req \<Rightarrow> headers req h | Responded _ \<Rightarrow> None)"

definition is_next :: "mw_result \<Rightarrow> bool" where
  "is_next r = (case r of Next _ \<Rightarrow> True | Responded _ \<Rightarrow> False)"

section \<open>Gateway routes (server file of the api-gateway)\<close>

text \<open>
  The routes in the order in which the server registers them (lines 87 to 95): the mount
  path, whether \<open>verifyJWT\<close> precedes the proxy, and the proxy's target.
\<close>

datatype protection = Public | Protected

datatype backend = UserService | TaskService

definition route_table :: "(string \<times> protection \<times> backend) list" where
  "route_table =
     [(''/api/auth/login'', Public, UserService),
      (''/api/auth/register'', Public, UserService),
      (''/api/auth/public-key'', Public, UserService),
      (''/api/auth/me'', Protected, UserService),
      (''/api/users'', Protected, UserService),
      (''/api/teams'', Protected, UserService),
      (''/graphql'', Protected, TaskService)]"

definition availableRoutes :: "string list" where
  "availableRoutes =
     [''/health'',
      ''/api/auth/login (POST, public)'',
      ''/api/auth/register (POST, public)'',
      ''/api/auth/me (GET, protected)'',
      ''/api/users/* (protected)'',
      ''/api/teams/* (protected)'',
      ''/graphql (protected)'']"

text \<open>
  Whether a request path falls under a mount path (\<open>app.use(path, ...)\<close>) or equals a
  route path (\<open>app.get(path, ...)\<close>) is decided by Express, which is not part of the
  repository; the two tests are parameters \<open>mm\<close> and \<open>rm\<close> of the model. Express
  runs a \<open>get\<close> route for the methods GET and HEAD.
\<close>

type_synonym matcher = "string \<Rightarrow> string \<Rightarrow> bool"

definition is_get :: "request \<Rightarrow> bool" where
  "is_get req = (req_method req = ''GET'' \<or> req_method req = ''HEAD'')"

text \<open>
  Which part of the server takes a request, in the order in which the server file sets
  the parts up:
  \<^item> an upgrade request is taken by the upgrade listener of \<open>graphqlApiProxy\<close>
    (line 73), outside the Express stack, whatever its path;
  \<^item> the CORS middleware (line 16) ends every OPTIONS request;
  \<^item> the rate limiter (line 31) ends a request that is over the limit;
  \<^item> \<open>app.get('/health')\<close> (line 34);
  \<^item> the first mount path of the route table that matches (lines 87 to 95);
  \<^item> otherwise no route matches.
  Helmet (line 13) only sets response headers.
\<close>

datatype route_class =
    Upgrade
  | CorsPreflight
  | Limited
  | HealthCheck
  | Proxied protection backend
  | Unmatched

definition classify :: "matcher \<Rightarrow> matcher \<Rightarrow> request \<Rightarrow> route_class" where
  "classify mm rm req =
     (if req_upgrade req then Upgrade
      else if req_method req = ''OPTIONS'' then CorsPreflight
      else if rate_limited req then Limited
      else if is_get req \<and> rm ''/health'' (req_path req) then HealthCheck
      else
        (case find (\<lambda>e. mm (fst e) (req_path req)) route_table of
           Some (p, prot, b) \<Rightarrow> Proxied prot b
         | None \<Rightarrow> Unmatched))"

text \<open>
  What the gateway does with a request. \<open>Forward b req\<close> means that the request, as
  \<open>req\<close>, is handed to the proxy for the backend \<open>b\<close>; what the proxy does when the
  backend cannot be reached is not part of the model. \<open>Respond r\<close> means that the
  gateway answers itself. \<open>Unhandled\<close> means that no handler of the gateway answers or
  proxies the request: it falls off the end of the stack and is left to Express.

  An upgrade request goes to the Task Service without \<open>verifyJWT\<close> and without the
  route table. A request that no route matches reaches the catch-all
  \<open>app.get('*')\<close> only when its method is GET or HEAD.
\<close>

definition too_many_requests :: reply where
  "too_many_requests =
     TooManyRequests ''Too many requests from this IP, please try again later.''"

datatype outcome = Forward backend request | Respond reply | Unhandled

definition gateway ::
  "matcher \<Rightarrow> matcher \<Rightarrow> jwt_verify \<Rightarrow> environment \<Rightarrow> network \<Rightarrow> int \<Rightarrow> cache \<Rightarrow> request \<Rightarrow>
     outcome \<times> cache \<times> string list" where
  "gateway mm rm jv env net now c req =
     (case classify mm rm req of
        Upgrade \<Rightarrow> (Forward TaskService req, c, [])
      | CorsPreflight \<Rightarrow> (Respond Preflight, c, [])
      | Limited \<Rightarrow> (Respond too_many_requests, c, [])
      | HealthCheck \<Rightarrow>
          (Respond (Healthy now (restApiUrl env)
                      (or_default (GRAPHQL_API_URL env) ''http://localhost:4000'')), c, [])
      | Proxied Public b \<Rightarrow> (Forward b req, c, [])
      | Proxied Protected b \<Rightarrow>
          (case verifyJWT jv env net now c req of
             (Next req', c', urls) \<Rightarrow> (Forward b req', c', urls)
           | (Responded r, c', urls) \<Rightarrow> (Respond r, c', urls))
      | Unmatched \<Rightarrow>
          (if is_get req then (Respond (RouteNotFound availableRoutes), c, [])
           else (Unhandled, c, [])))"

definition is_forward :: "outcome \<Rightarrow> bool" where
  "is_forward out =
     (case out of Forward _ _ \<Rightarrow> True | Respond _ \<Rightarrow> False | Unhandled \<Rightarrow> False)"

text \<open>
  A matcher in the manner of Express's defaults, for running the model: a mount path
  matches the path itself and everything below it; a route path matches itself with
  or without a trailing slash.
\<close>

definition mount_matches :: matcher where
  "mount_matches p path = (path = p \<or> startsWith path (p @ ''/''))"

definition route_matches :: matcher where
  "route_matches p path = (path = p \<or> path = p @ ''/'')"

text \<open>
  The bearer token that lines 34 to 43 extract from a request, if there is one.
\<close>

definition bearer_token :: "request \<Rightarrow> string option" where
  "bearer_token req =
     (case headers req ''authorization'' of
        None \<Rightarrow> None
      | Some authHeader \<Rightarrow>
          if authHeader = [] \<or> \<not> startsWith authHeader ''Bearer '' then None
          else Some (substring authHeader 7))"

section \<open>The jsonwebtoken calls of the source, symbolically\<close>

text \<open>
  The source calls \<open>jwt.sign(payload, privateKey, {algorithm, expiresIn})\<close> and
  \<open>jwt.verify(token, key, {algorithms})\<close>. For the claims that relate the two calls
  the package is modelled symbolically, after its documented behaviour: a token consists
  of the algorithm named in its header, its payload and its signature; a signature records
  the algorithm, the private key and the payload it was made with, and it verifies under
  the public half of that key only. The compact serialisation (base64url of JSON) is
  the pair \<open>render\<close>, \<open>parse\<close> of the record \<open>jose\<close>, and \<open>public_of\<close> maps a
  private key to its public half.
\<close>

record sign_options =
  algorithm :: string
  expiresIn :: string

datatype signature = Signature string string payload

record jwt =
  jwt_alg :: string
  jwt_body :: payload
  jwt_signature :: signature

record jose =
  render :: "jwt \<Rightarrow> string"
  parse :: "string \<Rightarrow> jwt option"
  public_of :: "string \<Rightarrow> string"

type_synonym jwt_sign = "claims \<Rightarrow> string \<Rightarrow> sign_options \<Rightarrow> js_error + string"

text \<open>
  The time spans that \<open>expiresIn\<close> accepts as a string: a decimal number followed by
  one of the units s, m, h, d; the value is in seconds.
\<close>

definition is_digit :: "char \<Rightarrow> bool" where
  "is_digit ch = (ch \<in> set ''0123456789'')"

definition decimal :: "string \<Rightarrow> nat" where
  "decimal ds = foldl (\<lambda>acc ch. 10 * acc + (of_char ch - 48)) 0 ds"

definition unit_seconds :: "string \<Rightarrow> int option" where
  "unit_seconds u =
     (if u = ''s'' then Some 1 else if u = ''m'' then Some 60
      else if u = ''h'' then Some 3600 else if u = ''d'' then Some 86400 else None)"

definition timespan :: "string \<Rightarrow> int option" where
  "timespan s =
     (if takeWhile is_digit s = [] then None
      else (case unit_seconds (dropWhile is_digit s) of
              None \<Rightarrow> None
            | Some k \<Rightarrow> Some (int (decimal (takeWhile is_digit s)) * k)))"

definition stamp :: "claims \<Rightarrow> int \<Rightarrow> int \<Rightarrow> payload" where
  "stamp cl issued expires =
     \<lparr>userId = userId cl, email = email cl, role = role cl,
      iat = Some issued, exp = Some expires\<rparr>"

text \<open>
  The token that \<open>jwt.sign\<close> builds at clock time \<open>clock\<close> (milliseconds): \<open>iat\<close> is
  the clock in whole seconds, \<open>exp\<close> is \<open>iat\<close> plus the time span.
\<close>

definition issue_jwt :: "int \<Rightarrow> claims \<Rightarrow> string \<Rightarrow> sign_options \<Rightarrow> jwt option" where
  "issue_jwt clock cl privateKey opts =
     (case timespan (expiresIn opts) of
        None \<Rightarrow> None
      | Some secs \<Rightarrow>
          Some \<lparr>jwt_alg = algorithm opts,
                jwt_body = stamp cl (clock div 1000) (clock div 1000 + secs),
                jwt_signature =
                  Signature (algorithm opts) privateKey
                    (stamp cl (clock div 1000) (clock div 1000 + secs))\<rparr>)"

definition jsonwebtoken_sign :: "jose \<Rightarrow> int \<Rightarrow> jwt_sign" where
  "jsonwebtoken_sign w clock cl privateKey opts =
     (case issue_jwt clock cl privateKey opts of
        None \<Rightarrow> Inl (Error ''expiresIn should be a number of seconds or string representing a timespan'')
      | Some j \<Rightarrow> Inr (render w j))"

definition signature_valid :: "jose \<Rightarrow> jwt \<Rightarrow> string \<Rightarrow> bool" where
  "signature_valid w j key =
     (case jwt_signature j of
        Signature a priv p \<Rightarrow> a = jwt_alg j \<and> p = jwt_body j \<and> public_of w priv = key)"

definition JsonWebTokenError :: "string \<Rightarrow> js_error" where
  "JsonWebTokenError m = JsError ''JsonWebTokenError'' m"

definition TokenExpiredError :: "string \<Rightarrow> js_error" where
  "TokenExpiredError m = JsError ''TokenExpiredError'' m"

text \<open>
  \<open>jwt.verify\<close> at clock time \<open>clock\<close> (milliseconds), in the order of the package:
  the token is decoded, a key must be present, the header's algorithm must be among the
  accepted ones, the signature must verify, and only then the expiry is compared with the
  clock in whole seconds (\<open>clockTimestamp >= payload.exp\<close> is expired).
\<close>

definition jsonwebtoken_verify :: "jose \<Rightarrow> int \<Rightarrow> jwt_verify" where
  "jsonwebtoken_verify w clock token key algorithms =
     (case parse w token of
        None \<Rightarrow> Inl (JsonWebTokenError ''jwt malformed'')
      | Some j \<Rightarrow>
          if \<not> truthy_string key
          then Inl (JsonWebTokenError ''secret or public key must be provided'')
          else if jwt_alg j \<notin> set algorithms
          then Inl (JsonWebTokenError ''invalid algorithm'')
          else if \<not> signature_valid w j (case key of Some k \<Rightarrow> k | None \<Rightarrow> [])
          then Inl (JsonWebTokenError ''invalid signature'')
          else
            (case exp (jwt_body j) of
               None \<Rightarrow> Inr (jwt_body j)
             | Some e \<Rightarrow>
                 if clock div 1000 \<ge> e then Inl (TokenExpiredError ''jwt expired'')
                 else Inr (jwt_body j)))"

section \<open>User Service: register and login (routes of the auth router)\<close>

text \<open>
  A stored user, and the user as it is returned (\<open>userWithoutPassword\<close>). The request
  body's fields are strings, or \<open>None\<close> when the field is absent.
\<close>

record user =
  user_id :: string
  user_name :: string
  user_email :: string
  user_password :: string
  user_role :: string
  createdAt :: int
  updatedAt :: int

record user_view =
  view_id :: string
  view_name :: string
  view_email :: string
  view_role :: string
  view_createdAt :: int
  view_updatedAt :: int

definition without_password :: "user \<Rightarrow> user_view" where
  "without_password u =
     \<lparr>view_id = user_id u, view_name = user_name u, view_email = user_email u,
      view_role = user_role u, view_createdAt = createdAt u, view_updatedAt = updatedAt u\<rparr>"

record body =
  body_name :: "string option"
  body_email :: "string option"
  body_password :: "string option"
  body_role :: "string option"

datatype auth_reply =
    ErrorReply nat string string
  | Registered user_view string
  | LoggedIn user_view string

definition string_of :: "string option \<Rightarrow> string" where
  "string_of v = (case v of None \<Rightarrow> [] | Some s \<Rightarrow> s)"

text \<open>\<open>role = 'user'\<close> in the destructuring of line 20: the default applies to an absent field.\<close>

definition requested_role :: "body \<Rightarrow> string" where
  "requested_role b = (case body_role b of None \<Rightarrow> ''user'' | Some r \<Rightarrow> r)"

definition signing_options :: sign_options where
  "signing_options = \<lparr>algorithm = ''RS256'', expiresIn = ''24h''\<rparr>"

definition claims_of :: "user \<Rightarrow> claims" where
  "claims_of u = \<lparr>userId = Some (user_id u), email = Some (user_email u), role = Some (user_role u)\<rparr>"

text \<open>
  \<open>POST /register\<close>. \<open>js\<close> is \<open>jwt.sign\<close>, \<open>bhash\<close> is \<open>bcrypt.hash(_, 10)\<close>,
  \<open>uuid\<close> the value of \<open>uuidv4()\<close>, \<open>now\<close> the clock, \<open>users\<close> the in-memory array.
  The new user is pushed before the token is signed, so it stays stored when signing
  throws.
\<close>

definition register ::
  "jwt_sign \<Rightarrow> (string \<Rightarrow> string) \<Rightarrow> string \<Rightarrow> string \<Rightarrow> int \<Rightarrow> user list \<Rightarrow> body \<Rightarrow>
     auth_reply \<times> user list" where
  "register js bhash privateKey uuid now users b =
     (if \<not> truthy_string (body_name b) \<or> \<not> truthy_string (body_email b) \<or>
         \<not> truthy_string (body_password b)
      then (ErrorReply 400 ''Missing required fields'' ''Name, email, and password are required'', users)
      else
        (case find (\<lambda>u. user_email u = string_of (body_email b)) users of
           Some existingUser \<Rightarrow>
             (ErrorReply 409 ''Email already exists'' ''A user with this email already exists'', users)
         | None \<Rightarrow>
             (let newUser =
                \<lparr>user_id = uuid, user_name = string_of (body_name b),
                 user_email = string_of (body_email b),
                 user_password = bhash (string_of (body_password b)),
                 user_role = requested_role b, createdAt = now, updatedAt = now\<rparr>
              in (case js (claims_of newUser) privateKey signing_options of
                    Inl error \<Rightarrow>
                      (ErrorReply 500 ''Registration failed'' (err_message error), users @ [newUser])
                  | Inr token \<Rightarrow>
                      (Registered (without_password newUser) token, users @ [newUser])))))"

text \<open>\<open>POST /login\<close>. \<open>bcompare\<close> is \<open>bcrypt.compare\<close>.\<close>

definition login ::
  "jwt_sign \<Rightarrow> (string \<Rightarrow> string \<Rightarrow> bool) \<Rightarrow> string \<Rightarrow> user list \<Rightarrow> body \<Rightarrow> auth_reply" where
  "login js bcompare privateKey users b =
     (if \<not> truthy_string (body_email b) \<or> \<not> truthy_string (body_password b)
      then ErrorReply 400 ''Missing credentials'' ''Email and password are required''
      else
        (case find (\<lambda>u. user_email u = string_of (body_email b)) users of
           None \<Rightarrow> ErrorReply 401 ''Authentication failed'' ''Invalid email or password''
         | Some u \<Rightarrow>
             if \<not> bcompare (string_of (body_password b)) (user_password u)
             then ErrorReply 401 ''Authentication failed'' ''Invalid email or password''
             else
               (case js (claims_of u) privateKey signing_options of
                  Inl error \<Rightarrow> ErrorReply 500 ''Login failed'' (err_message error)
                | Inr token \<Rightarrow> LoggedIn (without_password u) token)))"

section \<open>Sample data\<close>

text \<open>
  Concrete requests, users, tokens, a serialisation and a key store on which the
  definitions above are run. The serialisation knows two tokens: the one issued to the user
  \<open>alice\<close> at clock 5000, and one with the same payload but an expiry of 1000 that is
  signed with another private key.
\<close>

definition bearer_request :: "string \<Rightarrow> string \<Rightarrow> string \<Rightarrow> request" where
  "bearer_request m p token =
     \<lparr>req_method = m, req_path = p, headers = [''authorization'' \<mapsto> ''Bearer '' @ token],
      req_upgrade = False, rate_limited = False\<rparr>"

definition plain_request :: "string \<Rightarrow> string \<Rightarrow> request" where
  "plain_request m p =
     \<lparr>req_method = m, req_path = p, headers = Map.empty,
      req_upgrade = False, rate_limited = False\<rparr>"

definition spoofed_request :: request where
  "spoofed_request =
     \<lparr>req_method = ''GET'', req_path = ''/api/users'',
      headers = [''x-user-id'' \<mapsto> ''1'', ''x-user-role'' \<mapsto> ''admin''],
      req_upgrade = False, rate_limited = False\<rparr>"

definition spoofed_bearer_request :: request where
  "spoofed_bearer_request =
     \<lparr>req_method = ''GET'', req_path = ''/api/users'',
      headers = [''authorization'' \<mapsto> ''Bearer alice.token'',
                 ''x-user-id'' \<mapsto> ''root'', ''x-user-role'' \<mapsto> ''superadmin''],
      req_upgrade = False, rate_limited = False\<rparr>"

definition alice :: user where
  "alice = \<lparr>user_id = ''u1'', user_name = ''Alice'', user_email = ''a@example.com'',
            user_password = ''hash of secret'', user_role = ''admin'',
            createdAt = 0, updatedAt = 0\<rparr>"

definition alice_login :: body where
  "alice_login = \<lparr>body_name = None, body_email = Some ''a@example.com'',
                  body_password = Some ''secret'', body_role = None\<rparr>"

definition mallory_body :: body where
  "mallory_body = \<lparr>body_name = Some ''Mallory'', body_email = Some ''m@example.com'',
                   body_password = Some ''pw'', body_role = Some ''admin''\<rparr>"

definition toy_bcompare :: "string \<Rightarrow> string \<Rightarrow> bool" where
  "toy_bcompare password hash = (hash = ''hash of '' @ password)"

definition toy_bhash :: "string \<Rightarrow> string" where
  "toy_bhash password = ''hash of '' @ password"

definition alice_jwt :: jwt where
  "alice_jwt =
     \<lparr>jwt_alg = ''RS256'',
      jwt_body = stamp (claims_of alice) 5 86405,
      jwt_signature = Signature ''RS256'' ''PRIVATE'' (stamp (claims_of alice) 5 86405)\<rparr>"

definition forged_jwt :: jwt where
  "forged_jwt =
     \<lparr>jwt_alg = ''RS256'',
      jwt_body = stamp (claims_of alice) 5 1000,
      jwt_signature = Signature ''RS256'' ''ATTACKER'' (stamp (claims_of alice) 5 1000)\<rparr>"

definition toy_jose :: jose where
  "toy_jose =
     \<lparr>render = (\<lambda>j. if j = alice_jwt then ''alice.token''
                     else if j = forged_jwt then ''forged.token'' else ''other.token''),
      parse = (\<lambda>s. if s = ''alice.token'' then Some alice_jwt
                    else if s = ''forged.token'' then Some forged_jwt else None),
      public_of = (\<lambda>priv. ''PUBLIC of '' @ priv)\<rparr>"

definition key_store_up :: network where
  "key_store_up url = NetData (Some ''PUBLIC of PRIVATE'')"

section \<open>Properties of the key cache\<close>

lemma fetchPublicKey_valid:
  "cache_valid c now \<Longrightarrow> fetchPublicKey env net now c = (Inr (publicKey c), c, [])"
  by (simp add: fetchPublicKey_def)

lemma fetchPublicKey_failure:
  "\<not> cache_valid c now \<Longrightarrow> net (public_key_url env) = NetFailure \<Longrightarrow>
   fetchPublicKey env net now c = (Inl unable_to_fetch, c, [public_key_url env])"
  by (simp add: fetchPublicKey_def)

lemma fetchPublicKey_success:
  "\<not> cache_valid c now \<Longrightarrow> net (public_key_url env) = NetData k \<Longrightarrow>
   fetchPublicKey env net now c =
     (Inr k, c\<lparr>publicKey := k, publicKeyLastFetched := Some now\<rparr>, [public_key_url env])"
  by (simp add: fetchPublicKey_def)

lemma cache_valid_iff:
  "cache_valid c now \<longleftrightarrow>
     (\<exists>k t. publicKey c = Some k \<and> k \<noteq> [] \<and> publicKeyLastFetched c = Some t \<and> t \<noteq> 0 \<and>
            now - t < 3600000)"
  by (auto simp: cache_valid_def truthy_string_def truthy_number_def
      PUBLIC_KEY_CACHE_DURATION_def split: option.splits)

text \<open>
  C4. While the cache is populated (both variables hold truthy values, which is what the
  code tests) and the last successful fetch is less than one hour (3600000 ms) before
  the time of the call, every call of a sequence of calls returns the identical cached
  key, no call touches the network, and the cache is left as it was.
\<close>

theorem fetchPublicKey_within_window_idempotent:
  assumes "publicKey c = Some k" and "k \<noteq> []"
    and "publicKeyLastFetched c = Some t" and "t \<noteq> 0"
    and "\<forall>now \<in> set nows. now - t < 3600000"
  shows "fetch_repeatedly env net nows c = (map (\<lambda>_. Inr (Some k)) nows, c, [])"
  using assms(5)
proof (induction nows)
  case Nil
  show ?case by simp
next
  case (Cons now nows)
  have "cache_valid c now"
    using assms(1-4) Cons.prems by (auto simp: cache_valid_iff)
  then have "fetchPublicKey env net now c = (Inr (Some k), c, [])"
    using assms(1) by (simp add: fetchPublicKey_valid)
  moreover have "fetch_repeatedly env net nows c = (map (\<lambda>_. Inr (Some k)) nows, c, [])"
    using Cons by simp
  ultimately show ?case by simp
qed

theorem fetchPublicKey_within_window_idempotent_witness:
  "fetch_repeatedly no_environment network_down [1000, 2000, 3600999]
     \<lparr>publicKey = Some ''PEM'', publicKeyLastFetched = Some 1000\<rparr> =
   ([Inr (Some ''PEM''), Inr (Some ''PEM''), Inr (Some ''PEM'')],
    \<lparr>publicKey = Some ''PEM'', publicKeyLastFetched = Some 1000\<rparr>, [])"
  using fetchPublicKey_within_window_idempotent
    [of "\<lparr>publicKey = Some ''PEM'', publicKeyLastFetched = Some 1000\<rparr>" "''PEM''" 1000
        "[1000, 2000, 3600999]" no_environment network_down]
  by simp

text \<open>
  C10. A call whose network fetch fails throws and leaves both cache variables exactly as
  they were. A call whose fetch succeeds returns the fetched key and replaces the key
  and the timestamp together, by the fetched key and the time of the call. A call that
  finds the cache valid makes no fetch and leaves the cache as it was. So whenever a
  call changes the cache, its fetch succeeded and the cache afterwards holds the fetched
  key and the time of the call.
\<close>

theorem fetchPublicKey_cache_mutation:
  "(\<not> cache_valid c now \<and> net (public_key_url env) = NetFailure \<longrightarrow>
      fetchPublicKey env net now c = (Inl unable_to_fetch, c, [public_key_url env])) \<and>
   (\<forall>k. \<not> cache_valid c now \<and> net (public_key_url env) = NetData k \<longrightarrow>
      fetchPublicKey env net now c =
        (Inr k, c\<lparr>publicKey := k, publicKeyLastFetched := Some now\<rparr>, [public_key_url env]) \<and>
      publicKey (fst (snd (fetchPublicKey env net now c))) = k \<and>
      publicKeyLastFetched (fst (snd (fetchPublicKey env net now c))) = Some now) \<and>
   (cache_valid c now \<longrightarrow> fetchPublicKey env net now c = (Inr (publicKey c), c, [])) \<and>
   (\<forall>r c' urls. fetchPublicKey env net now c = (r, c', urls) \<and> c' \<noteq> c \<longrightarrow>
      (\<exists>k. net (public_key_url env) = NetData k \<and> r = Inr k \<and>
           publicKey c' = k \<and> publicKeyLastFetched c' = Some now))"
proof (cases "cache_valid c now")
  case True
  then show ?thesis by (simp add: fetchPublicKey_valid)
next
  case False
  show ?thesis
  proof (cases "net (public_key_url env)")
    case NetFailure
    then show ?thesis using False by (simp add: fetchPublicKey_failure)
  next
    case (NetData k)
    then show ?thesis using False by (auto simp: fetchPublicKey_success)
  qed
qed

theorem fetchPublicKey_cache_mutation_witness:
  "\<not> cache_valid \<lparr>publicKey = Some ''PEM'', publicKeyLastFetched = Some 1000\<rparr> 7200000 \<and>
   network_down (public_key_url no_environment) = NetFailure \<and>
   fetchPublicKey no_environment network_down 7200000
     \<lparr>publicKey = Some ''PEM'', publicKeyLastFetched = Some 1000\<rparr> =
     (Inl unable_to_fetch, \<lparr>publicKey = Some ''PEM'', publicKeyLastFetched = Some 1000\<rparr>,
      [public_key_url no_environment]) \<and>
   key_store_up (public_key_url no_environment) = NetData (Some ''PUBLIC of PRIVATE'') \<and>
   fetchPublicKey no_environment key_store_up 7200000
     \<lparr>publicKey = Some ''PEM'', publicKeyLastFetched = Some 1000\<rparr> =
     (Inr (Some ''PUBLIC of PRIVATE''),
      \<lparr>publicKey = Some ''PUBLIC of PRIVATE'', publicKeyLastFetched = Some 7200000\<rparr>,
      [public_key_url no_environment]) \<and>
   cache_valid \<lparr>publicKey = Some ''PEM'', publicKeyLastFetched = Some 1000\<rparr> 2000 \<and>
   fetchPublicKey no_environment key_store_up 2000
     \<lparr>publicKey = Some ''PEM'', publicKeyLastFetched = Some 1000\<rparr> =
     (Inr (Some ''PEM''), \<lparr>publicKey = Some ''PEM'', publicKeyLastFetched = Some 1000\<rparr>, [])"
proof -
  let ?c = "\<lparr>publicKey = Some ''PEM'', publicKeyLastFetched = Some 1000\<rparr>"
  have stale: "\<not> cache_valid ?c 7200000"
    by (simp add: cache_valid_def PUBLIC_KEY_CACHE_DURATION_def)
  have fresh: "cache_valid ?c 2000"
    by (simp add: cache_valid_def PUBLIC_KEY_CACHE_DURATION_def truthy_string_def
        truthy_number_def)
  have down: "network_down (public_key_url no_environment) = NetFailure"
    by (simp add: network_down_def)
  have up: "key_store_up (public_key_url no_environment) = NetData (Some ''PUBLIC of PRIVATE'')"
    by (simp add: key_store_up_def)
  note failed = fetchPublicKey_cache_mutation
      [of ?c 7200000 network_down no_environment, THEN conjunct1, rule_format,
       OF conjI [OF stale down]]
  note fetched = fetchPublicKey_cache_mutation
      [of ?c 7200000 key_store_up no_environment, THEN conjunct2, THEN conjunct1, rule_format,
       OF conjI [OF stale up], THEN conjunct1]
  note served = fetchPublicKey_cache_mutation
      [of ?c 2000 key_store_up no_environment, THEN conjunct2, THEN conjunct2, THEN conjunct1,
       rule_format, OF fresh]
  have fetched': "fetchPublicKey no_environment key_store_up 7200000 ?c =
     (Inr (Some ''PUBLIC of PRIVATE''),
      \<lparr>publicKey = Some ''PUBLIC of PRIVATE'', publicKeyLastFetched = Some 7200000\<rparr>,
      [public_key_url no_environment])"
    using fetched by simp
  have served': "fetchPublicKey no_environment key_store_up 2000 ?c = (Inr (Some ''PEM''), ?c, [])"
    using served by simp
  show ?thesis
    by (intro conjI stale down failed up fetched' fresh served')
qed

text \<open>
  C1, as stated, fails: with a key cached at time 1000 and a call at time 3601000 (one hour
  later) whose fetch fails, the call throws instead of returning the cached key.
\<close>

theorem fetchPublicKey_stale_not_served:
  "fst (fetchPublicKey no_environment network_down 3601000
          \<lparr>publicKey = Some ''PEM'', publicKeyLastFetched = Some 1000\<rparr>) = Inl unable_to_fetch \<and>
   fst (fetchPublicKey no_environment network_down 3601000
          \<lparr>publicKey = Some ''PEM'', publicKeyLastFetched = Some 1000\<rparr>) \<noteq> Inr (Some ''PEM'')"
  by (simp add: fetchPublicKey_def cache_valid_def truthy_string_def truthy_number_def
      PUBLIC_KEY_CACHE_DURATION_def network_down_def)

text \<open>
  C1, amended. A cached key is returned only by the test of line 13, that is while it is
  less than one hour old. When that test fails and the fetch fails, the call throws the
  error \<open>Unable to fetch public key for JWT verification\<close>, whether or not an older
  key is cached; and whenever a call returns a key without the fetch having delivered it,
  the cache passed the test of line 13.
\<close>

theorem fetchPublicKey_fails_when_refresh_fails:
  "(\<not> cache_valid c now \<and> net (public_key_url env) = NetFailure \<longrightarrow>
      fst (fetchPublicKey env net now c) = Inl unable_to_fetch) \<and>
   (fst (fetchPublicKey env net now c) = Inr key \<and> net (public_key_url env) \<noteq> NetData key \<longrightarrow>
      cache_valid c now \<and> key = publicKey c)"
  by (cases "net (public_key_url env)") (auto simp: fetchPublicKey_def)

theorem fetchPublicKey_fails_when_refresh_fails_witness:
  "\<not> cache_valid \<lparr>publicKey = Some ''PEM'', publicKeyLastFetched = Some 1000\<rparr> 3601000 \<and>
   fst (fetchPublicKey no_environment network_down 3601000
          \<lparr>publicKey = Some ''PEM'', publicKeyLastFetched = Some 1000\<rparr>) = Inl unable_to_fetch \<and>
   fst (fetchPublicKey no_environment network_down 3600999
          \<lparr>publicKey = Some ''PEM'', publicKeyLastFetched = Some 1000\<rparr>) = Inr (Some ''PEM'') \<and>
   cache_valid \<lparr>publicKey = Some ''PEM'', publicKeyLastFetched = Some 1000\<rparr> 3600999"
proof -
  let ?c = "\<lparr>publicKey = Some ''PEM'', publicKeyLastFetched = Some 1000\<rparr>"
  have stale: "\<not> cache_valid ?c 3601000"
    by (simp add: cache_valid_def PUBLIC_KEY_CACHE_DURATION_def)
  have served: "fst (fetchPublicKey no_environment network_down 3600999 ?c) = Inr (Some ''PEM'')"
    by (simp add: fetchPublicKey_def cache_valid_def truthy_string_def truthy_number_def
        PUBLIC_KEY_CACHE_DURATION_def)
  have down: "network_down (public_key_url no_environment) = NetFailure"
    by (simp add: network_down_def)
  from fetchPublicKey_fails_when_refresh_fails [of ?c 3601000 network_down no_environment]
       fetchPublicKey_fails_when_refresh_fails [of ?c 3600999 network_down no_environment "Some ''PEM''"]
       stale served down
  show ?thesis by simp
qed

section \<open>Properties of the verification middleware and the routes\<close>

lemma verifyJWT_no_bearer:
  "bearer_token req = None \<Longrightarrow> verifyJWT jv env net now c req = (Responded no_token_provided, c, [])"
  by (auto simp: verifyJWT_def bearer_token_def split: option.splits if_splits)

lemma verifyJWT_bearer:
  "bearer_token req = Some tok \<Longrightarrow>
   verifyJWT jv env net now c req =
     (case fetchPublicKey env net now c of
        (Inl error, c', urls) \<Rightarrow> (Responded (verify_catch error), c', urls)
      | (Inr key, c', urls) \<Rightarrow>
          (case jv tok key [''RS256''] of
             Inl error \<Rightarrow> (Responded (verify_catch error), c', urls)
           | Inr decoded \<Rightarrow> (Next (annotate req decoded), c', urls)))"
  by (auto simp: verifyJWT_def bearer_token_def split: option.splits if_splits)

lemma optionalJWT_no_bearer:
  "bearer_token req = None \<Longrightarrow> optionalJWT jv env net now c req = (Next req, c, [])"
  by (auto simp: optionalJWT_def bearer_token_def split: option.splits if_splits)

lemma optionalJWT_bearer:
  "bearer_token req = Some tok \<Longrightarrow>
   optionalJWT jv env net now c req =
     (case fetchPublicKey env net now c of
        (Inl error, c', urls) \<Rightarrow> (Next req, c', urls)
      | (Inr key, c', urls) \<Rightarrow>
          (case jv tok key [''RS256''] of
             Inl error \<Rightarrow> (Next req, c', urls)
           | Inr decoded \<Rightarrow> (Next (annotate req decoded), c', urls)))"
  by (auto simp: optionalJWT_def bearer_token_def split: option.splits if_splits)

lemma no_key_not_valid: "publicKey c = None \<Longrightarrow> \<not> cache_valid c now"
  by (simp add: cache_valid_def truthy_string_def)

lemma gateway_protected:
  "classify mm rm req = Proxied Protected b \<Longrightarrow>
   gateway mm rm jv env net now c req =
     (case verifyJWT jv env net now c req of
        (Next req', c', urls) \<Rightarrow> (Forward b req', c', urls)
      | (Responded r, c', urls) \<Rightarrow> (Respond r, c', urls))"
  by (simp add: gateway_def)

lemma gateway_protected_fst:
  "classify mm rm req = Proxied Protected b \<Longrightarrow>
   fst (gateway mm rm jv env net now c req) =
     (case fst (verifyJWT jv env net now c req) of
        Next req' \<Rightarrow> Forward b req' | Responded r \<Rightarrow> Respond r)"
  by (auto simp: gateway_protected split: prod.splits mw_result.splits)

lemma bearer_token_header:
  "headers req ''authorization'' = Some (''Bearer '' @ token) \<Longrightarrow> bearer_token req = Some token"
  by (simp add: bearer_token_def startsWith_def substring_def)

lemma bearer_token_bearer_request: "bearer_token (bearer_request m p token) = Some token"
  by (simp add: bearer_token_def bearer_request_def startsWith_def substring_def)

lemma bearer_token_cong:
  "headers other ''authorization'' = headers req ''authorization'' \<Longrightarrow>
   bearer_token other = bearer_token req"
  by (simp add: bearer_token_def)

lemma classify_users:
  "classify mount_matches route_matches (bearer_request ''GET'' ''/api/users'' token) =
     Proxied Protected UserService"
  by (simp add: classify_def bearer_request_def route_table_def mount_matches_def
      route_matches_def startsWith_def is_get_def)

lemma annotate_headers:
  "headers (annotate req decoded) ''x-user-id'' = userId decoded"
  "headers (annotate req decoded) ''x-user-email'' = email decoded"
  "headers (annotate req decoded) ''x-user-role'' = role decoded"
  by (simp_all add: annotate_def)

lemma verifyJWT_Next:
  assumes "fst (verifyJWT jv env net now c req) = Next req'"
  shows "\<exists>tok key decoded. bearer_token req = Some tok \<and>
           fst (fetchPublicKey env net now c) = Inr key \<and>
           jv tok key [''RS256''] = Inr decoded \<and> req' = annotate req decoded"
proof (cases "bearer_token req")
  case None
  then show ?thesis using assms by (simp add: verifyJWT_no_bearer)
next
  case (Some tok)
  obtain r c' urls where f: "fetchPublicKey env net now c = (r, c', urls)"
    by (cases "fetchPublicKey env net now c") auto
  show ?thesis
    using assms Some f by (auto simp: verifyJWT_bearer split: sum.splits)
qed

lemma verifyJWT_accepts:
  assumes "bearer_token req = Some tok"
    and "fst (fetchPublicKey env net now c) = Inr key"
    and "jv tok key [''RS256''] = Inr decoded"
  shows "fst (verifyJWT jv env net now c req) = Next (annotate req decoded)"
proof -
  obtain r c' urls where f: "fetchPublicKey env net now c = (r, c', urls)"
    by (cases "fetchPublicKey env net now c") auto
  show ?thesis using assms f by (simp add: verifyJWT_bearer)
qed

lemma gateway_reply:
  assumes "classify mm rm req = Proxied Protected backend"
    and "bearer_token req = Some token"
    and "fst (fetchPublicKey env net now c) = Inr key"
    and "jv token key [''RS256''] = Inl error"
  shows "fst (gateway mm rm jv env net now c req) = Respond (verify_catch error)"
proof -
  obtain r c' urls where f: "fetchPublicKey env net now c = (r, c', urls)"
    by (cases "fetchPublicKey env net now c") auto
  have "fst (verifyJWT jv env net now c req) = Responded (verify_catch error)"
    using assms(2-4) f by (simp add: verifyJWT_bearer)
  then show ?thesis using assms(1) by (simp add: gateway_protected_fst)
qed

lemma verify_catch_expired: "verify_catch (TokenExpiredError m) = token_expired"
  by (simp add: verify_catch_def TokenExpiredError_def)

lemma verify_catch_invalid: "verify_catch (JsonWebTokenError m) = invalid_token"
  by (simp add: verify_catch_def JsonWebTokenError_def)

lemma timespan_24h: "timespan ''24h'' = Some 86400"
  by (simp add: timespan_def is_digit_def unit_seconds_def decimal_def)

lemma issue_jwt_signing_options:
  "issue_jwt clock cl privateKey signing_options =
     Some \<lparr>jwt_alg = ''RS256'',
           jwt_body = stamp cl (clock div 1000) (clock div 1000 + 86400),
           jwt_signature =
             Signature ''RS256'' privateKey
               (stamp cl (clock div 1000) (clock div 1000 + 86400))\<rparr>"
  by (simp add: issue_jwt_def signing_options_def timespan_24h)

lemma verify_issued:
  assumes "parse w token = issue_jwt iclock cl privateKey signing_options"
    and "vclock div 1000 < iclock div 1000 + 86400"
    and "public_of w privateKey \<noteq> []"
  shows "jsonwebtoken_verify w vclock token (Some (public_of w privateKey)) [''RS256''] =
           Inr (stamp cl (iclock div 1000) (iclock div 1000 + 86400))"
  using assms
  by (simp add: jsonwebtoken_verify_def issue_jwt_signing_options signature_valid_def
      truthy_string_def stamp_def)

lemma jsonwebtoken_sign_Inr:
  "jsonwebtoken_sign w iclock cl privateKey signing_options = Inr token \<Longrightarrow>
   \<exists>j. issue_jwt iclock cl privateKey signing_options = Some j \<and> render w j = token"
  by (auto simp: jsonwebtoken_sign_def split: option.splits)

lemma login_LoggedIn:
  assumes "login js bcompare privateKey users b = LoggedIn view token"
  shows "\<exists>u. find (\<lambda>u. user_email u = string_of (body_email b)) users = Some u \<and>
             bcompare (string_of (body_password b)) (user_password u) \<and>
             view = without_password u \<and>
             js (claims_of u) privateKey signing_options = Inr token"
  using assms
  by (auto simp: login_def split: if_splits option.splits sum.splits)

lemma claims_of_view:
  "claims_of u =
     \<lparr>userId = Some (view_id (without_password u)),
      email = Some (view_email (without_password u)),
      role = Some (view_role (without_password u))\<rparr>"
  by (simp add: claims_of_def without_password_def)

lemma register_accepts:
  assumes "truthy_string (body_name b)" and "truthy_string (body_email b)"
    and "truthy_string (body_password b)"
    and "find (\<lambda>u. user_email u = string_of (body_email b)) users = None"
  shows "register js bhash privateKey uuid now users b =
     (let newUser =
        \<lparr>user_id = uuid, user_name = string_of (body_name b),
         user_email = string_of (body_email b),
         user_password = bhash (string_of (body_password b)),
         user_role = requested_role b, createdAt = now, updatedAt = now\<rparr>
      in (case js (claims_of newUser) privateKey signing_options of
            Inl error \<Rightarrow>
              (ErrorReply 500 ''Registration failed'' (err_message error), users @ [newUser])
          | Inr token \<Rightarrow> (Registered (without_password newUser) token, users @ [newUser])))"
  using assms by (simp add: register_def)

lemma register_path_public:
  "req_method req \<noteq> ''OPTIONS'' \<Longrightarrow> \<not> req_upgrade req \<Longrightarrow> \<not> rate_limited req \<Longrightarrow>
   classify mount_matches route_matches (req\<lparr>req_path := ''/api/auth/register''\<rparr>) =
     Proxied Public UserService"
  by (simp add: classify_def route_table_def mount_matches_def route_matches_def startsWith_def)


lemma users_protected:
  "req_path req = ''/api/users'' \<Longrightarrow> req_method req = ''GET'' \<Longrightarrow> \<not> req_upgrade req \<Longrightarrow>
   \<not> rate_limited req \<Longrightarrow>
   classify mount_matches route_matches req = Proxied Protected UserService"
  by (simp add: classify_def route_table_def mount_matches_def route_matches_def startsWith_def
      is_get_def)

lemma alice_issue: "issue_jwt 5000 (claims_of alice) ''PRIVATE'' signing_options = Some alice_jwt"
  by (simp add: issue_jwt_signing_options alice_jwt_def)

lemma alice_logs_in:
  "login (jsonwebtoken_sign toy_jose 5000) toy_bcompare ''PRIVATE'' [alice] alice_login =
     LoggedIn (without_password alice) ''alice.token''"
  by (simp add: login_def alice_login_def truthy_string_def string_of_def alice_def
      toy_bcompare_def jsonwebtoken_sign_def alice_issue [unfolded alice_def] toy_jose_def
      alice_jwt_def)

lemma key_store_up_fetch:
  "fetchPublicKey no_environment key_store_up now initial_cache =
     (Inr (Some ''PUBLIC of PRIVATE''),
      \<lparr>publicKey = Some ''PUBLIC of PRIVATE'', publicKeyLastFetched = Some now\<rparr>,
      [''http://localhost:3001/api/auth/public-key''])"
  by (simp add: fetchPublicKey_def cache_valid_def initial_cache_def truthy_string_def
      key_store_up_def public_key_url_def restApiUrl_def or_default_def no_environment_def)

lemma alice_token_verifies:
  "jsonwebtoken_verify toy_jose 6000000 ''alice.token'' (Some ''PUBLIC of PRIVATE'') [''RS256''] =
     Inr (stamp (claims_of alice) 5 86405)"
  by (simp add: jsonwebtoken_verify_def toy_jose_def alice_jwt_def truthy_string_def
      signature_valid_def stamp_def)

text \<open>
  C2, as stated, fails in its last part: a request without a credential that carries the
  header \<open>x-user-role: admin\<close> is handed on by \<open>optionalJWT\<close> with that header in
  place.
\<close>

theorem optionalJWT_passes_spoofed_headers:
  "forwarded_header
     (fst (optionalJWT (jsonwebtoken_verify toy_jose 5)
             no_environment network_down 0 initial_cache spoofed_request))
     ''x-user-role'' = Some ''admin''"
  by (simp add: optionalJWT_def spoofed_request_def forwarded_header_def)

text \<open>
  C2, amended. \<open>optionalJWT\<close> never responds itself: it always calls \<open>next()\<close>. When
  the request has no bearer credential, when the key cannot be fetched, or when
  \<open>jwt.verify\<close> throws, the request is handed on exactly as it was received: no
  identity header is added, and identity headers sent by the caller stay as they are.
\<close>

theorem optionalJWT_never_rejects:
  "is_next (fst (optionalJWT jv env net now c req)) \<and>
   (bearer_token req = None \<longrightarrow> fst (optionalJWT jv env net now c req) = Next req) \<and>
   (\<forall>tok e. bearer_token req = Some tok \<and> fst (fetchPublicKey env net now c) = Inl e \<longrightarrow>
      fst (optionalJWT jv env net now c req) = Next req) \<and>
   (\<forall>tok key e. bearer_token req = Some tok \<and> fst (fetchPublicKey env net now c) = Inr key \<and>
      jv tok key [''RS256''] = Inl e \<longrightarrow>
      fst (optionalJWT jv env net now c req) = Next req)"
proof (cases "bearer_token req")
  case None
  then show ?thesis by (simp add: optionalJWT_no_bearer is_next_def)
next
  case (Some tok)
  obtain r c' urls where f: "fetchPublicKey env net now c = (r, c', urls)"
    by (cases "fetchPublicKey env net now c") auto
  show ?thesis
    using Some f by (auto simp: optionalJWT_bearer is_next_def split: sum.splits)
qed

theorem optionalJWT_never_rejects_witness:
  "bearer_token spoofed_request = None \<and>
   fst (optionalJWT (jsonwebtoken_verify toy_jose 5000000) no_environment key_store_up 5000000
          initial_cache spoofed_request) = Next spoofed_request \<and>
   bearer_token (bearer_request ''GET'' ''/api/users'' ''forged.token'') = Some ''forged.token'' \<and>
   fst (fetchPublicKey no_environment network_down 5000000 initial_cache) = Inl unable_to_fetch \<and>
   fst (optionalJWT (jsonwebtoken_verify toy_jose 5000000) no_environment network_down 5000000
          initial_cache (bearer_request ''GET'' ''/api/users'' ''forged.token'')) =
     Next (bearer_request ''GET'' ''/api/users'' ''forged.token'') \<and>
   fst (fetchPublicKey no_environment key_store_up 5000000 initial_cache) =
     Inr (Some ''PUBLIC of PRIVATE'') \<and>
   jsonwebtoken_verify toy_jose 5000000 ''forged.token'' (Some ''PUBLIC of PRIVATE'') [''RS256''] =
     Inl (JsonWebTokenError ''invalid signature'') \<and>
   fst (optionalJWT (jsonwebtoken_verify toy_jose 5000000) no_environment key_store_up 5000000
          initial_cache (bearer_request ''GET'' ''/api/users'' ''forged.token'')) =
     Next (bearer_request ''GET'' ''/api/users'' ''forged.token'')"
proof -
  let ?jv = "jsonwebtoken_verify toy_jose 5000000"
  let ?req = "bearer_request ''GET'' ''/api/users'' ''forged.token''"
  have a: "bearer_token spoofed_request = None"
    by (simp add: bearer_token_def spoofed_request_def)
  have b: "bearer_token ?req = Some ''forged.token''"
    by (rule bearer_token_bearer_request)
  have c: "fst (fetchPublicKey no_environment network_down 5000000 initial_cache) = Inl unable_to_fetch"
    by (simp add: fetchPublicKey_failure no_key_not_valid initial_cache_def network_down_def)
  have d: "fst (fetchPublicKey no_environment key_store_up 5000000 initial_cache) =
     Inr (Some ''PUBLIC of PRIVATE'')"
    by (simp add: key_store_up_fetch)
  have e: "?jv ''forged.token'' (Some ''PUBLIC of PRIVATE'') [''RS256''] =
     Inl (JsonWebTokenError ''invalid signature'')"
    by (simp add: jsonwebtoken_verify_def toy_jose_def forged_jwt_def truthy_string_def
        signature_valid_def)
  from optionalJWT_never_rejects
         [where jv = ?jv and env = no_environment and net = key_store_up and now = 5000000
            and c = initial_cache and req = spoofed_request]
       optionalJWT_never_rejects
         [where jv = ?jv and env = no_environment and net = network_down and now = 5000000
            and c = initial_cache and req = ?req]
       optionalJWT_never_rejects
         [where jv = ?jv and env = no_environment and net = key_store_up and now = 5000000
            and c = initial_cache and req = ?req]
       a b c d e
  show ?thesis by simp
qed

text \<open>
  C3. When \<open>verifyJWT\<close> lets a request pass (it calls \<open>next()\<close>, after which a
  protected route hands the request to its proxy), the request carried a bearer token
  that \<open>jwt.verify\<close> accepted under the key of the cache, and the headers
  \<open>x-user-id\<close>, \<open>x-user-email\<close> and \<open>x-user-role\<close> of the request that is passed
  on are the \<open>userId\<close>, \<open>email\<close> and \<open>role\<close> of the decoded payload. They do not
  depend on anything else the caller sent: every request with the same
  \<open>authorization\<close> header passes with the same three headers, whatever values it
  supplied under those names. On a protected route the request passed on is the request
  that is forwarded. (A request that reaches a backend without \<open>verifyJWT\<close>, on a
  public route or as an upgrade request, is not the subject of this statement.)
\<close>

theorem forwarded_identity_from_credential:
  assumes "fst (verifyJWT jv env net now c req) = Next req'"
  shows "\<exists>tok key decoded.
           bearer_token req = Some tok \<and> fst (fetchPublicKey env net now c) = Inr key \<and>
           jv tok key [''RS256''] = Inr decoded \<and>
           headers req' ''x-user-id'' = userId decoded \<and>
           headers req' ''x-user-email'' = email decoded \<and>
           headers req' ''x-user-role'' = role decoded \<and>
           (\<forall>other. headers other ''authorization'' = headers req ''authorization'' \<longrightarrow>
              (\<exists>other'. fst (verifyJWT jv env net now c other) = Next other' \<and>
                 headers other' ''x-user-id'' = headers req' ''x-user-id'' \<and>
                 headers other' ''x-user-email'' = headers req' ''x-user-email'' \<and>
                 headers other' ''x-user-role'' = headers req' ''x-user-role'')) \<and>
           (\<forall>b. classify mm rm req = Proxied Protected b \<longrightarrow>
              fst (gateway mm rm jv env net now c req) = Forward b req')"
proof -
  from verifyJWT_Next [OF assms] obtain tok key decoded where
    tok: "bearer_token req = Some tok" and
    key: "fst (fetchPublicKey env net now c) = Inr key" and
    dec: "jv tok key [''RS256''] = Inr decoded" and
    req': "req' = annotate req decoded"
    by blast
  have indep: "\<exists>other'. fst (verifyJWT jv env net now c other) = Next other' \<and>
                 headers other' ''x-user-id'' = headers req' ''x-user-id'' \<and>
                 headers other' ''x-user-email'' = headers req' ''x-user-email'' \<and>
                 headers other' ''x-user-role'' = headers req' ''x-user-role''"
    if auth: "headers other ''authorization'' = headers req ''authorization''" for other
  proof -
    have "bearer_token other = Some tok"
      using bearer_token_cong [OF auth] tok by simp
    then have "fst (verifyJWT jv env net now c other) = Next (annotate other decoded)"
      using key dec by (rule verifyJWT_accepts)
    then show ?thesis by (simp add: req' annotate_headers)
  qed
  have fwd: "fst (gateway mm rm jv env net now c req) = Forward b req'"
    if "classify mm rm req = Proxied Protected b" for b
    using that assms by (simp add: gateway_protected_fst)
  show ?thesis
    using tok key dec indep fwd by (auto simp: req' annotate_headers)
qed

theorem forwarded_identity_from_credential_witness:
  "fst (verifyJWT (jsonwebtoken_verify toy_jose 6000000) no_environment
          key_store_up 6000000 initial_cache spoofed_bearer_request) =
     Next (annotate spoofed_bearer_request (stamp (claims_of alice) 5 86405)) \<and>
   headers spoofed_bearer_request ''x-user-role'' = Some ''superadmin'' \<and>
   headers (annotate spoofed_bearer_request (stamp (claims_of alice) 5 86405)) ''x-user-role'' =
     Some ''admin'' \<and>
   headers (bearer_request ''GET'' ''/api/users'' ''alice.token'') ''authorization'' =
     headers spoofed_bearer_request ''authorization'' \<and>
   (\<exists>other'. fst (verifyJWT (jsonwebtoken_verify toy_jose 6000000)
                    no_environment key_store_up 6000000 initial_cache
                    (bearer_request ''GET'' ''/api/users'' ''alice.token'')) = Next other' \<and>
              headers other' ''x-user-role'' = Some ''admin'') \<and>
   classify mount_matches route_matches spoofed_bearer_request = Proxied Protected UserService \<and>
   fst (gateway mount_matches route_matches (jsonwebtoken_verify toy_jose 6000000) no_environment
          key_store_up 6000000 initial_cache spoofed_bearer_request) =
     Forward UserService (annotate spoofed_bearer_request (stamp (claims_of alice) 5 86405))"
proof -
  let ?jv = "jsonwebtoken_verify toy_jose 6000000"
  let ?decoded = "stamp (claims_of alice) 5 86405"
  have h1: "classify mount_matches route_matches spoofed_bearer_request =
      Proxied Protected UserService"
    by (rule users_protected) (simp_all add: spoofed_bearer_request_def)
  have tok: "bearer_token spoofed_bearer_request = Some ''alice.token''"
    by (simp add: bearer_token_def spoofed_bearer_request_def startsWith_def substring_def)
  have key: "fst (fetchPublicKey no_environment key_store_up 6000000 initial_cache) =
      Inr (Some ''PUBLIC of PRIVATE'')"
    by (simp add: key_store_up_fetch)
  have h2: "fst (verifyJWT ?jv no_environment key_store_up 6000000 initial_cache
               spoofed_bearer_request) = Next (annotate spoofed_bearer_request ?decoded)"
    using tok key alice_token_verifies by (rule verifyJWT_accepts)
  have spoof: "headers spoofed_bearer_request ''x-user-role'' = Some ''superadmin''"
    by (simp add: spoofed_bearer_request_def)
  have role: "headers (annotate spoofed_bearer_request ?decoded) ''x-user-role'' = Some ''admin''"
    by (simp add: annotate_headers stamp_def claims_of_def alice_def)
  have same: "headers (bearer_request ''GET'' ''/api/users'' ''alice.token'') ''authorization'' =
      headers spoofed_bearer_request ''authorization''"
    by (simp add: bearer_request_def spoofed_bearer_request_def)
  from forwarded_identity_from_credential
         [where jv = ?jv and mm = mount_matches and rm = route_matches, OF h2]
  have all: "(\<forall>other. headers other ''authorization'' =
                 headers spoofed_bearer_request ''authorization'' \<longrightarrow>
          (\<exists>other'. fst (verifyJWT ?jv no_environment key_store_up 6000000 initial_cache other) =
                       Next other' \<and>
             headers other' ''x-user-role'' =
               headers (annotate spoofed_bearer_request ?decoded) ''x-user-role'')) \<and>
        (\<forall>b. classify mount_matches route_matches spoofed_bearer_request = Proxied Protected b \<longrightarrow>
           fst (gateway mount_matches route_matches ?jv no_environment key_store_up 6000000
                  initial_cache spoofed_bearer_request) =
             Forward b (annotate spoofed_bearer_request ?decoded))"
    by blast
  from all same have
    "\<exists>other'. fst (verifyJWT ?jv no_environment key_store_up 6000000 initial_cache
                     (bearer_request ''GET'' ''/api/users'' ''alice.token'')) = Next other' \<and>
             headers other' ''x-user-role'' =
               headers (annotate spoofed_bearer_request ?decoded) ''x-user-role''"
    by blast
  moreover from all h1 have
    "fst (gateway mount_matches route_matches ?jv no_environment key_store_up 6000000
            initial_cache spoofed_bearer_request) =
       Forward UserService (annotate spoofed_bearer_request ?decoded)"
    by blast
  ultimately show ?thesis using h1 h2 spoof role same by simp
qed

text \<open>
  C5. A user logs in at clock \<open>iclock\<close> and receives a token. The token is presented as
  bearer credential to a protected route at a time \<open>vclock\<close> before its expiry (24 hours
  after issue, in whole seconds), the serialisation reads the issued string back as the
  token it was rendered from, and the key cache supplies the public half of the signing
  key. Then \<open>jwt.verify\<close> succeeds, the decoded \<open>userId\<close>, \<open>email\<close> and \<open>role\<close>
  are the id, email and role of the user that were signed, and the request is forwarded
  with exactly these values in the identity headers.
\<close>

theorem issued_credential_round_trip:
  assumes "login (jsonwebtoken_sign w iclock) bcompare privateKey users b = LoggedIn view token"
    and "\<forall>j. render w j = token \<longrightarrow> parse w token = Some j"
    and "vclock div 1000 < iclock div 1000 + 86400"
    and "fst (fetchPublicKey env net now c) = Inr (Some (public_of w privateKey))"
    and "public_of w privateKey \<noteq> []"
    and "classify mm rm req = Proxied Protected backend"
    and "headers req ''authorization'' = Some (''Bearer '' @ token)"
  shows "\<exists>decoded req'.
           jsonwebtoken_verify w vclock token (Some (public_of w privateKey)) [''RS256''] = Inr decoded \<and>
           userId decoded = Some (view_id view) \<and> email decoded = Some (view_email view) \<and>
           role decoded = Some (view_role view) \<and>
           fst (gateway mm rm (jsonwebtoken_verify w vclock) env net now c req) = Forward backend req' \<and>
           headers req' ''x-user-id'' = Some (view_id view) \<and>
           headers req' ''x-user-email'' = Some (view_email view) \<and>
           headers req' ''x-user-role'' = Some (view_role view)"
proof -
  from login_LoggedIn [OF assms(1)] obtain u where
    view: "view = without_password u" and
    signed: "jsonwebtoken_sign w iclock (claims_of u) privateKey signing_options = Inr token"
    by blast
  from jsonwebtoken_sign_Inr [OF signed] obtain j where
    j: "issue_jwt iclock (claims_of u) privateKey signing_options = Some j" and
    rendered: "render w j = token"
    by blast
  have "parse w token = Some j"
    using assms(2) rendered by blast
  then have parsed: "parse w token = issue_jwt iclock (claims_of u) privateKey signing_options"
    using j by simp
  let ?decoded = "stamp (claims_of u) (iclock div 1000) (iclock div 1000 + 86400)"
  have v: "jsonwebtoken_verify w vclock token (Some (public_of w privateKey)) [''RS256''] = Inr ?decoded"
    using parsed assms(3,5) by (rule verify_issued)
  have tok: "bearer_token req = Some token"
    using assms(7) by (rule bearer_token_header)
  have "fst (verifyJWT (jsonwebtoken_verify w vclock) env net now c req) = Next (annotate req ?decoded)"
    using tok assms(4) v by (rule verifyJWT_accepts)
  then have "fst (gateway mm rm (jsonwebtoken_verify w vclock) env net now c req) =
      Forward backend (annotate req ?decoded)"
    using assms(6) by (simp add: gateway_protected_fst)
  with v show ?thesis
    by (simp add: annotate_headers stamp_def view claims_of_view)
qed

theorem issued_credential_round_trip_witness:
  "login (jsonwebtoken_sign toy_jose 5000) toy_bcompare ''PRIVATE'' [alice] alice_login =
     LoggedIn (without_password alice) ''alice.token'' \<and>
   parse toy_jose (render toy_jose alice_jwt) = Some alice_jwt \<and>
   (6000000::int) div 1000 < 5000 div 1000 + 86400 \<and>
   fst (fetchPublicKey no_environment key_store_up 6000000 initial_cache) =
     Inr (Some (public_of toy_jose ''PRIVATE'')) \<and>
   classify mount_matches route_matches (bearer_request ''GET'' ''/api/users'' ''alice.token'') =
     Proxied Protected UserService \<and>
   (\<exists>req'. fst (gateway mount_matches route_matches (jsonwebtoken_verify toy_jose 6000000)
                  no_environment key_store_up 6000000 initial_cache
                  (bearer_request ''GET'' ''/api/users'' ''alice.token'')) = Forward UserService req' \<and>
           headers req' ''x-user-id'' = Some ''u1'' \<and>
           headers req' ''x-user-email'' = Some ''a@example.com'' \<and>
           headers req' ''x-user-role'' = Some ''admin'')"
proof -
  have h1: "login (jsonwebtoken_sign toy_jose 5000) toy_bcompare ''PRIVATE'' [alice] alice_login =
     LoggedIn (without_password alice) ''alice.token''" by (rule alice_logs_in)
  have h2: "\<forall>j. render toy_jose j = ''alice.token'' \<longrightarrow> parse toy_jose ''alice.token'' = Some j"
    by (simp add: toy_jose_def)
  have h3: "(6000000::int) div 1000 < 5000 div 1000 + 86400" by simp
  have h4: "fst (fetchPublicKey no_environment key_store_up 6000000 initial_cache) =
     Inr (Some (public_of toy_jose ''PRIVATE''))"
    by (simp add: key_store_up_fetch toy_jose_def)
  have h5: "public_of toy_jose ''PRIVATE'' \<noteq> []" by (simp add: toy_jose_def)
  have h6: "classify mount_matches route_matches (bearer_request ''GET'' ''/api/users'' ''alice.token'') =
     Proxied Protected UserService" by (rule classify_users)
  have h7: "headers (bearer_request ''GET'' ''/api/users'' ''alice.token'') ''authorization'' =
     Some (''Bearer '' @ ''alice.token'')" by (simp add: bearer_request_def)
  have codec: "parse toy_jose (render toy_jose alice_jwt) = Some alice_jwt"
    by (simp add: toy_jose_def)
  from issued_credential_round_trip [OF h1 h2 h3 h4 h5 h6 h7] h1 codec h3 h4 h6
  show ?thesis by (auto simp: without_password_def alice_def)
qed

text \<open>
  C6, as stated, fails. A token whose expiry (second 1000) is long past at clock
  5000000 ms, but whose signature was made with another key, is answered with
  \<open>Invalid token\<close>, not with \<open>Token expired\<close>: the signature is checked before the
  expiry. The same expired token presented while no key can be obtained is answered with
  status 500.
\<close>

theorem expired_forged_credential_is_invalid:
  "exp (jwt_body forged_jwt) = Some 1000 \<and> (1000::int) * 1000 < 5000000 \<and>
   parse toy_jose ''forged.token'' = Some forged_jwt \<and>
   fst (gateway mount_matches route_matches (jsonwebtoken_verify toy_jose 5000000)
          no_environment key_store_up 5000000 initial_cache
          (bearer_request ''GET'' ''/api/users'' ''forged.token'')) = Respond invalid_token \<and>
   invalid_token \<noteq> token_expired \<and>
   fst (gateway mount_matches route_matches (jsonwebtoken_verify toy_jose 5000000)
          no_environment network_down 5000000 initial_cache
          (bearer_request ''GET'' ''/api/users'' ''forged.token'')) = Respond token_verification_failed \<and>
   token_verification_failed \<noteq> token_expired"
proof -
  have v: "jsonwebtoken_verify toy_jose 5000000 ''forged.token'' (Some ''PUBLIC of PRIVATE'') [''RS256''] =
      Inl (JsonWebTokenError ''invalid signature'')"
    by (simp add: jsonwebtoken_verify_def toy_jose_def forged_jwt_def truthy_string_def
        signature_valid_def)
  have k: "fst (fetchPublicKey no_environment key_store_up 5000000 initial_cache) =
      Inr (Some ''PUBLIC of PRIVATE'')"
    by (simp add: key_store_up_fetch)
  have g1: "fst (gateway mount_matches route_matches (jsonwebtoken_verify toy_jose 5000000)
          no_environment key_store_up 5000000 initial_cache
          (bearer_request ''GET'' ''/api/users'' ''forged.token'')) = Respond invalid_token"
    using gateway_reply [where jv = "jsonwebtoken_verify toy_jose 5000000",
        OF classify_users bearer_token_bearer_request k v]
    by (simp add: verify_catch_invalid)
  have d: "fetchPublicKey no_environment network_down 5000000 initial_cache =
      (Inl unable_to_fetch, initial_cache, [public_key_url no_environment])"
    by (rule fetchPublicKey_failure)
      (simp_all add: no_key_not_valid initial_cache_def network_down_def)
  have g2: "fst (gateway mount_matches route_matches (jsonwebtoken_verify toy_jose 5000000)
          no_environment network_down 5000000 initial_cache
          (bearer_request ''GET'' ''/api/users'' ''forged.token'')) = Respond token_verification_failed"
    by (simp add: gateway_protected_fst [OF classify_users] verifyJWT_bearer
        [OF bearer_token_bearer_request] d verify_catch_def unable_to_fetch_def Error_def)
  show ?thesis
    using g1 g2
    by (simp add: forged_jwt_def stamp_def toy_jose_def invalid_token_def token_expired_def
        token_verification_failed_def)
qed

text \<open>
  C6, amended. Let a bearer token be presented to a protected route while the key cache
  supplies a key, and let the token decode to a token with algorithm RS256 whose
  \<open>exp\<close> is not later than the clock in whole seconds (which holds in particular when
  the expiry lies strictly in the past). If its signature verifies under the key, the
  response is 401 \<open>Token expired\<close>, which differs from the response \<open>Invalid token\<close>;
  if its signature does not verify, the response is 401 \<open>Invalid token\<close>.
\<close>

theorem expired_credential_rejected:
  assumes "classify mm rm req = Proxied Protected backend"
    and "bearer_token req = Some token"
    and "fst (fetchPublicKey env net now c) = Inr (Some key)" and "key \<noteq> []"
    and "parse w token = Some j" and "jwt_alg j = ''RS256''"
    and "exp (jwt_body j) = Some e" and "e \<le> vclock div 1000"
  shows "fst (gateway mm rm (jsonwebtoken_verify w vclock) env net now c req) =
           Respond (if signature_valid w j key then token_expired else invalid_token) \<and>
         status token_expired = 401 \<and> token_expired \<noteq> invalid_token"
proof -
  have "jsonwebtoken_verify w vclock token (Some key) [''RS256''] =
      Inl (if signature_valid w j key then TokenExpiredError ''jwt expired''
           else JsonWebTokenError ''invalid signature'')"
    using assms(4-8) by (simp add: jsonwebtoken_verify_def truthy_string_def)
  from gateway_reply [where jv = "jsonwebtoken_verify w vclock", OF assms(1-3) this]
  show ?thesis
    by (simp add: verify_catch_expired verify_catch_invalid token_expired_def invalid_token_def)
qed

theorem expired_credential_rejected_witness:
  "classify mount_matches route_matches (bearer_request ''GET'' ''/api/users'' ''alice.token'') =
     Proxied Protected UserService \<and>
   bearer_token (bearer_request ''GET'' ''/api/users'' ''alice.token'') = Some ''alice.token'' \<and>
   fst (fetchPublicKey no_environment key_store_up 90000000 initial_cache) =
     Inr (Some ''PUBLIC of PRIVATE'') \<and>
   parse toy_jose ''alice.token'' = Some alice_jwt \<and> jwt_alg alice_jwt = ''RS256'' \<and>
   exp (jwt_body alice_jwt) = Some 86405 \<and> (86405::int) \<le> 90000000 div 1000 \<and>
   signature_valid toy_jose alice_jwt ''PUBLIC of PRIVATE'' \<and>
   fst (gateway mount_matches route_matches (jsonwebtoken_verify toy_jose 90000000)
          no_environment key_store_up 90000000 initial_cache
          (bearer_request ''GET'' ''/api/users'' ''alice.token'')) = Respond token_expired"
proof -
  have h1: "classify mount_matches route_matches (bearer_request ''GET'' ''/api/users'' ''alice.token'') =
     Proxied Protected UserService" by (rule classify_users)
  have h2: "bearer_token (bearer_request ''GET'' ''/api/users'' ''alice.token'') = Some ''alice.token''"
    by (rule bearer_token_bearer_request)
  have h3: "fst (fetchPublicKey no_environment key_store_up 90000000 initial_cache) =
     Inr (Some ''PUBLIC of PRIVATE'')" by (simp add: key_store_up_fetch)
  have h4: "''PUBLIC of PRIVATE'' \<noteq> []" by simp
  have h5: "parse toy_jose ''alice.token'' = Some alice_jwt" by (simp add: toy_jose_def)
  have h6: "jwt_alg alice_jwt = ''RS256''" by (simp add: alice_jwt_def)
  have h7: "exp (jwt_body alice_jwt) = Some 86405" by (simp add: alice_jwt_def stamp_def)
  have h8: "(86405::int) \<le> 90000000 div 1000" by simp
  have sv: "signature_valid toy_jose alice_jwt ''PUBLIC of PRIVATE''"
    by (simp add: signature_valid_def alice_jwt_def toy_jose_def)
  from expired_credential_rejected
         [where mm = mount_matches and rm = route_matches and w = toy_jose and vclock = 90000000,
          OF h1 h2 h3 h4 h5 h6 h7 h8] h1 h2 h3 h5 h6 h7 h8 sv
  show ?thesis by simp
qed

text \<open>
  C7, as stated, fails: with no key cached and the key store unreachable, a request to a
  protected route that carries no credential is answered with status 401,
  \<open>No token provided\<close>, not with a 5xx-class error. The header is examined before the
  key is asked for.
\<close>

theorem key_unavailable_without_credential:
  "classify mount_matches route_matches spoofed_request = Proxied Protected UserService \<and>
   publicKey initial_cache = None \<and>
   network_down (public_key_url no_environment) = NetFailure \<and>
   gateway mount_matches route_matches (jsonwebtoken_verify toy_jose 5)
     no_environment network_down 5 initial_cache spoofed_request =
     (Respond no_token_provided, initial_cache, []) \<and>
   status no_token_provided = 401"
proof -
  have cl: "classify mount_matches route_matches spoofed_request = Proxied Protected UserService"
    by (rule users_protected) (simp_all add: spoofed_request_def)
  have "bearer_token spoofed_request = None"
    by (simp add: bearer_token_def spoofed_request_def)
  then have "gateway mount_matches route_matches (jsonwebtoken_verify toy_jose 5)
     no_environment network_down 5 initial_cache spoofed_request =
     (Respond no_token_provided, initial_cache, [])"
    using cl by (simp add: gateway_protected verifyJWT_no_bearer)
  then show ?thesis
    using cl by (simp add: initial_cache_def network_down_def no_token_provided_def)
qed

text \<open>
  C7, amended. Let no key be cached and let the fetch of the key fail. A request to a
  protected route that presents a bearer credential is answered with status 500,
  \<open>Token verification failed\<close>, and the cache stays empty; a request without a bearer
  credential is answered with status 401, \<open>No token provided\<close>, without a fetch. In
  neither case is the request forwarded. The answer 500 is distinct from every
  Unauthenticated failure: a missing credential is answered with 401 as said, and in any
  state in which the key is available, an error of \<open>jwt.verify\<close> named
  \<open>JsonWebTokenError\<close> is answered with 401 \<open>Invalid token\<close> and one named
  \<open>TokenExpiredError\<close> with 401 \<open>Token expired\<close>.
\<close>

theorem key_unavailable_is_server_error:
  assumes "classify mm rm req = Proxied Protected b"
    and "publicKey c = None"
    and "net (public_key_url env) = NetFailure"
  shows "(bearer_token req \<noteq> None \<longrightarrow>
            gateway mm rm jv env net now c req =
              (Respond token_verification_failed, c, [public_key_url env])) \<and>
         (bearer_token req = None \<longrightarrow>
            gateway mm rm jv env net now c req = (Respond no_token_provided, c, [])) \<and>
         \<not> is_forward (fst (gateway mm rm jv env net now c req)) \<and>
         status token_verification_failed = 500 \<and>
         status no_token_provided = 401 \<and> status invalid_token = 401 \<and>
         status token_expired = 401 \<and>
         (\<forall>c2 net2 now2 tok key e.
            bearer_token req = Some tok \<and> fst (fetchPublicKey env net2 now2 c2) = Inr key \<and>
            jv tok key [''RS256''] = Inl e \<and> err_name e = ''JsonWebTokenError'' \<longrightarrow>
            fst (gateway mm rm jv env net2 now2 c2 req) = Respond invalid_token) \<and>
         (\<forall>c2 net2 now2 tok key e.
            bearer_token req = Some tok \<and> fst (fetchPublicKey env net2 now2 c2) = Inr key \<and>
            jv tok key [''RS256''] = Inl e \<and> err_name e = ''TokenExpiredError'' \<longrightarrow>
            fst (gateway mm rm jv env net2 now2 c2 req) = Respond token_expired)"
proof -
  have "\<not> cache_valid c now" using assms(2) by (rule no_key_not_valid)
  then have f: "fetchPublicKey env net now c = (Inl unable_to_fetch, c, [public_key_url env])"
    using assms(3) by (rule fetchPublicKey_failure)
  have k: "verify_catch unable_to_fetch = token_verification_failed"
    by (simp add: verify_catch_def unable_to_fetch_def Error_def)
  have st1: "status token_verification_failed = 500"
    by (simp add: token_verification_failed_def)
  have st2: "status no_token_provided = 401" by (simp add: no_token_provided_def)
  have st3: "status invalid_token = 401" by (simp add: invalid_token_def)
  have st4: "status token_expired = 401" by (simp add: token_expired_def)
  have none: "gateway mm rm jv env net now c req = (Respond no_token_provided, c, [])"
    if "bearer_token req = None"
    using that assms(1) by (simp add: gateway_protected verifyJWT_no_bearer)
  have some: "gateway mm rm jv env net now c req =
        (Respond token_verification_failed, c, [public_key_url env])"
    if "bearer_token req \<noteq> None"
  proof -
    from that obtain tok where "bearer_token req = Some tok" by auto
    then have "verifyJWT jv env net now c req =
        (Responded token_verification_failed, c, [public_key_url env])"
      using f k by (simp add: verifyJWT_bearer)
    then show ?thesis using assms(1) by (simp add: gateway_protected)
  qed
  have nf: "\<not> is_forward (fst (gateway mm rm jv env net now c req))"
  proof (cases "bearer_token req")
    case None
    then show ?thesis using none by (simp add: is_forward_def)
  next
    case (Some tok)
    then show ?thesis using some by (simp add: is_forward_def)
  qed
  have inv: "fst (gateway mm rm jv env net2 now2 c2 req) = Respond invalid_token"
    if "bearer_token req = Some tok" and "fst (fetchPublicKey env net2 now2 c2) = Inr key"
      and "jv tok key [''RS256''] = Inl e" and "err_name e = ''JsonWebTokenError''"
    for c2 net2 now2 tok key e
    using gateway_reply [where jv = jv, OF assms(1) that(1-3)] that(4)
    by (simp add: verify_catch_def)
  have expd: "fst (gateway mm rm jv env net2 now2 c2 req) = Respond token_expired"
    if "bearer_token req = Some tok" and "fst (fetchPublicKey env net2 now2 c2) = Inr key"
      and "jv tok key [''RS256''] = Inl e" and "err_name e = ''TokenExpiredError''"
    for c2 net2 now2 tok key e
    using gateway_reply [where jv = jv, OF assms(1) that(1-3)] that(4)
    by (simp add: verify_catch_def)
  have A: "bearer_token req \<noteq> None \<longrightarrow>
            gateway mm rm jv env net now c req =
              (Respond token_verification_failed, c, [public_key_url env])"
    using some by simp
  have B: "bearer_token req = None \<longrightarrow>
            gateway mm rm jv env net now c req = (Respond no_token_provided, c, [])"
    using none by simp
  have I: "\<forall>c2 net2 now2 tok key e.
            bearer_token req = Some tok \<and> fst (fetchPublicKey env net2 now2 c2) = Inr key \<and>
            jv tok key [''RS256''] = Inl e \<and> err_name e = ''JsonWebTokenError'' \<longrightarrow>
            fst (gateway mm rm jv env net2 now2 c2 req) = Respond invalid_token"
  proof (intro allI impI)
    fix c2 net2 now2 tok key e
    assume "bearer_token req = Some tok \<and> fst (fetchPublicKey env net2 now2 c2) = Inr key \<and>
            jv tok key [''RS256''] = Inl e \<and> err_name e = ''JsonWebTokenError''"
    then have "bearer_token req = Some tok" "fst (fetchPublicKey env net2 now2 c2) = Inr key"
      "jv tok key [''RS256''] = Inl e" "err_name e = ''JsonWebTokenError''"
      by simp_all
    then show "fst (gateway mm rm jv env net2 now2 c2 req) = Respond invalid_token"
      by (rule inv)
  qed
  have E: "\<forall>c2 net2 now2 tok key e.
            bearer_token req = Some tok \<and> fst (fetchPublicKey env net2 now2 c2) = Inr key \<and>
            jv tok key [''RS256''] = Inl e \<and> err_name e = ''TokenExpiredError'' \<longrightarrow>
            fst (gateway mm rm jv env net2 now2 c2 req) = Respond token_expired"
  proof (intro allI impI)
    fix c2 net2 now2 tok key e
    assume "bearer_token req = Some tok \<and> fst (fetchPublicKey env net2 now2 c2) = Inr key \<and>
            jv tok key [''RS256''] = Inl e \<and> err_name e = ''TokenExpiredError''"
    then have "bearer_token req = Some tok" "fst (fetchPublicKey env net2 now2 c2) = Inr key"
      "jv tok key [''RS256''] = Inl e" "err_name e = ''TokenExpiredError''"
      by simp_all
    then show "fst (gateway mm rm jv env net2 now2 c2 req) = Respond token_expired"
      by (rule expd)
  qed
  show ?thesis
    by (intro conjI; fact)
qed

theorem key_unavailable_is_server_error_witness:
  "classify mount_matches route_matches (bearer_request ''GET'' ''/api/users'' ''forged.token'') =
     Proxied Protected UserService \<and>
   publicKey initial_cache = None \<and>
   network_down (public_key_url no_environment) = NetFailure \<and>
   bearer_token (bearer_request ''GET'' ''/api/users'' ''forged.token'') = Some ''forged.token'' \<and>
   gateway mount_matches route_matches (jsonwebtoken_verify toy_jose 90000000)
     no_environment network_down 5 initial_cache
     (bearer_request ''GET'' ''/api/users'' ''forged.token'') =
     (Respond token_verification_failed, initial_cache, [public_key_url no_environment]) \<and>
   bearer_token spoofed_request = None \<and>
   gateway mount_matches route_matches (jsonwebtoken_verify toy_jose 90000000)
     no_environment network_down 5 initial_cache spoofed_request =
     (Respond no_token_provided, initial_cache, []) \<and>
   jsonwebtoken_verify toy_jose 90000000 ''forged.token'' (Some ''PUBLIC of PRIVATE'') [''RS256''] =
     Inl (JsonWebTokenError ''invalid signature'') \<and>
   fst (gateway mount_matches route_matches (jsonwebtoken_verify toy_jose 90000000)
          no_environment key_store_up 5 initial_cache
          (bearer_request ''GET'' ''/api/users'' ''forged.token'')) = Respond invalid_token \<and>
   jsonwebtoken_verify toy_jose 90000000 ''alice.token'' (Some ''PUBLIC of PRIVATE'') [''RS256''] =
     Inl (TokenExpiredError ''jwt expired'') \<and>
   fst (gateway mount_matches route_matches (jsonwebtoken_verify toy_jose 90000000)
          no_environment key_store_up 5 initial_cache
          (bearer_request ''GET'' ''/api/users'' ''alice.token'')) = Respond token_expired"
proof -
  let ?jv = "jsonwebtoken_verify toy_jose 90000000"
  let ?forged = "bearer_request ''GET'' ''/api/users'' ''forged.token''"
  let ?alice = "bearer_request ''GET'' ''/api/users'' ''alice.token''"
  have h1: "classify mount_matches route_matches (bearer_request ''GET'' ''/api/users'' t) =
      Proxied Protected UserService" for t
    by (rule classify_users)
  have h1s: "classify mount_matches route_matches spoofed_request =
      Proxied Protected UserService"
    by (rule users_protected) (simp_all add: spoofed_request_def)
  have h2: "publicKey initial_cache = None" by (simp add: initial_cache_def)
  have h3: "network_down (public_key_url no_environment) = NetFailure"
    by (simp add: network_down_def)
  have bt: "bearer_token (bearer_request ''GET'' ''/api/users'' t) = Some t" for t
    by (rule bearer_token_bearer_request)
  have bs: "bearer_token spoofed_request = None"
    by (simp add: bearer_token_def spoofed_request_def)
  have key: "fst (fetchPublicKey no_environment key_store_up 5 initial_cache) =
      Inr (Some ''PUBLIC of PRIVATE'')"
    by (simp add: key_store_up_fetch)
  have vf: "?jv ''forged.token'' (Some ''PUBLIC of PRIVATE'') [''RS256''] =
      Inl (JsonWebTokenError ''invalid signature'')"
    by (simp add: jsonwebtoken_verify_def toy_jose_def forged_jwt_def truthy_string_def
        signature_valid_def)
  have va: "?jv ''alice.token'' (Some ''PUBLIC of PRIVATE'') [''RS256''] =
      Inl (TokenExpiredError ''jwt expired'')"
    by (simp add: jsonwebtoken_verify_def toy_jose_def alice_jwt_def truthy_string_def
        signature_valid_def stamp_def)
  have nf: "err_name (JsonWebTokenError ''invalid signature'') = ''JsonWebTokenError''"
    by (simp add: JsonWebTokenError_def)
  have ne: "err_name (TokenExpiredError ''jwt expired'') = ''TokenExpiredError''"
    by (simp add: TokenExpiredError_def)
  note t1 = key_unavailable_is_server_error
         [where mm = mount_matches and rm = route_matches and net = network_down
            and env = no_environment and c = initial_cache and now = 5 and jv = ?jv,
          OF h1 [of "''forged.token''"] h2 h3]
  note t2 = key_unavailable_is_server_error
         [where mm = mount_matches and rm = route_matches and net = network_down
            and env = no_environment and c = initial_cache and now = 5 and jv = ?jv,
          OF h1 [of "''alice.token''"] h2 h3]
  note t3 = key_unavailable_is_server_error
         [where mm = mount_matches and rm = route_matches and net = network_down
            and env = no_environment and c = initial_cache and now = 5 and jv = ?jv,
          OF h1s h2 h3]
  note cj = conjunct2 [THEN conjunct2, THEN conjunct2, THEN conjunct2, THEN conjunct2,
      THEN conjunct2, THEN conjunct2]
  note inv1 = t1 [THEN cj, THEN conjunct1, rule_format]
  note exp2 = t2 [THEN cj, THEN conjunct2, rule_format]
  have a: "gateway mount_matches route_matches ?jv no_environment network_down 5 initial_cache
      ?forged = (Respond token_verification_failed, initial_cache, [public_key_url no_environment])"
    using t1 [THEN conjunct1] bt [of "''forged.token''"] by simp
  have b: "gateway mount_matches route_matches ?jv no_environment network_down 5 initial_cache
      spoofed_request = (Respond no_token_provided, initial_cache, [])"
    using t3 [THEN conjunct2, THEN conjunct1] bs by simp
  have c: "fst (gateway mount_matches route_matches ?jv no_environment key_store_up 5
      initial_cache ?forged) = Respond invalid_token"
    by (rule inv1, intro conjI, rule bt, rule key, rule vf, rule nf)
  have d: "fst (gateway mount_matches route_matches ?jv no_environment key_store_up 5
      initial_cache ?alice) = Respond token_expired"
    by (rule exp2, intro conjI, rule bt, rule key, rule va, rule ne)
  show ?thesis
    using h1 [of "''forged.token''"] h2 h3 bt [of "''forged.token''"] bs a b c d vf va by simp
qed




text \<open>
  C9. \<open>register\<close> takes no credential. When the required fields are present and the
  email is new, the stored user, the returned user and the \<open>role\<close> claim of the token
  that is signed and returned all carry the \<open>role\<close> field of the request body, and
  \<open>user\<close> only when that field is absent; a body with \<open>role: admin\<close> yields a
  credential with the role \<open>admin\<close>. The gateway forwards a request for
  \<open>/api/auth/register\<close> to the User Service without calling \<open>verifyJWT\<close>.
\<close>

theorem register_role_from_body:
  assumes "truthy_string (body_name b)" and "truthy_string (body_email b)"
    and "truthy_string (body_password b)"
    and "find (\<lambda>u. user_email u = string_of (body_email b)) users = None"
  shows "\<exists>view newUser j.
           register (jsonwebtoken_sign w clock) bhash privateKey uuid now users b =
             (Registered view (render w j), users @ [newUser]) \<and>
           user_role newUser = requested_role b \<and> view_role view = requested_role b \<and>
           issue_jwt clock (claims_of newUser) privateKey signing_options = Some j \<and>
           role (jwt_body j) = Some (requested_role b) \<and>
           requested_role b = (case body_role b of None \<Rightarrow> ''user'' | Some r \<Rightarrow> r) \<and>
           (req_method req \<noteq> ''OPTIONS'' \<and> \<not> req_upgrade req \<and> \<not> rate_limited req \<longrightarrow>
              gateway mount_matches route_matches jv env net gnow c
                (req\<lparr>req_path := ''/api/auth/register''\<rparr>) =
                (Forward UserService (req\<lparr>req_path := ''/api/auth/register''\<rparr>), c, []))"
proof -
  let ?newUser = "\<lparr>user_id = uuid, user_name = string_of (body_name b),
         user_email = string_of (body_email b),
         user_password = bhash (string_of (body_password b)),
         user_role = requested_role b, createdAt = now, updatedAt = now\<rparr>"
  let ?body = "stamp (claims_of ?newUser) (clock div 1000) (clock div 1000 + 86400)"
  let ?j = "\<lparr>jwt_alg = ''RS256'', jwt_body = ?body,
            jwt_signature = Signature ''RS256'' privateKey ?body\<rparr>"
  have j: "issue_jwt clock (claims_of ?newUser) privateKey signing_options = Some ?j"
    by (rule issue_jwt_signing_options)
  then have "jsonwebtoken_sign w clock (claims_of ?newUser) privateKey signing_options =
      Inr (render w ?j)"
    by (simp add: jsonwebtoken_sign_def)
  then have r: "register (jsonwebtoken_sign w clock) bhash privateKey uuid now users b =
      (Registered (without_password ?newUser) (render w ?j), users @ [?newUser])"
    using assms by (simp add: register_accepts Let_def)
  have g: "gateway mount_matches route_matches jv env net gnow c
             (req\<lparr>req_path := ''/api/auth/register''\<rparr>) =
             (Forward UserService (req\<lparr>req_path := ''/api/auth/register''\<rparr>), c, [])"
    if "req_method req \<noteq> ''OPTIONS''" and "\<not> req_upgrade req" and "\<not> rate_limited req"
    using that by (simp add: gateway_def register_path_public)
  have "role (jwt_body ?j) = Some (requested_role b)"
    by (simp add: stamp_def claims_of_def)
  moreover have "view_role (without_password ?newUser) = requested_role b"
    by (simp add: without_password_def)
  moreover have "requested_role b = (case body_role b of None \<Rightarrow> ''user'' | Some r \<Rightarrow> r)"
    by (simp add: requested_role_def)
  ultimately have body: "register (jsonwebtoken_sign w clock) bhash privateKey uuid now users b =
             (Registered (without_password ?newUser) (render w ?j), users @ [?newUser]) \<and>
           user_role ?newUser = requested_role b \<and>
           view_role (without_password ?newUser) = requested_role b \<and>
           issue_jwt clock (claims_of ?newUser) privateKey signing_options = Some ?j \<and>
           role (jwt_body ?j) = Some (requested_role b) \<and>
           requested_role b = (case body_role b of None \<Rightarrow> ''user'' | Some r \<Rightarrow> r)"
    using r j by simp
  have G: "req_method req \<noteq> ''OPTIONS'' \<and> \<not> req_upgrade req \<and> \<not> rate_limited req \<longrightarrow>
              gateway mount_matches route_matches jv env net gnow c
                (req\<lparr>req_path := ''/api/auth/register''\<rparr>) =
                (Forward UserService (req\<lparr>req_path := ''/api/auth/register''\<rparr>), c, [])"
    using g by blast
  from body G show ?thesis
    by (intro exI [of _ "without_password ?newUser"] exI [of _ ?newUser] exI [of _ ?j]) blast
qed

theorem register_role_from_body_witness:
  "truthy_string (body_name mallory_body) \<and> truthy_string (body_email mallory_body) \<and>
   truthy_string (body_password mallory_body) \<and>
   find (\<lambda>u. user_email u = string_of (body_email mallory_body)) [alice] = None \<and>
   (\<exists>view newUser j.
      register (jsonwebtoken_sign toy_jose 5000) toy_bhash ''PRIVATE'' ''u2'' 5000 [alice] mallory_body =
        (Registered view (render toy_jose j), [alice] @ [newUser]) \<and>
      user_role newUser = ''admin'' \<and> view_role view = ''admin'' \<and>
      role (jwt_body j) = Some ''admin'') \<and>
   req_method (plain_request ''POST'' ''/'') \<noteq> ''OPTIONS'' \<and>
   \<not> req_upgrade (plain_request ''POST'' ''/'') \<and> \<not> rate_limited (plain_request ''POST'' ''/'') \<and>
   gateway mount_matches route_matches (jsonwebtoken_verify toy_jose 5000) no_environment
     network_down 5000 initial_cache
     ((plain_request ''POST'' ''/'')\<lparr>req_path := ''/api/auth/register''\<rparr>) =
     (Forward UserService ((plain_request ''POST'' ''/'')\<lparr>req_path := ''/api/auth/register''\<rparr>),
      initial_cache, [])"
proof -
  have h1: "truthy_string (body_name mallory_body)"
    by (simp add: mallory_body_def truthy_string_def)
  have h2: "truthy_string (body_email mallory_body)"
    by (simp add: mallory_body_def truthy_string_def)
  have h3: "truthy_string (body_password mallory_body)"
    by (simp add: mallory_body_def truthy_string_def)
  have h4: "find (\<lambda>u. user_email u = string_of (body_email mallory_body)) [alice] = None"
    by (simp add: mallory_body_def alice_def string_of_def)
  have r: "requested_role mallory_body = ''admin''"
    by (simp add: requested_role_def mallory_body_def)
  have p: "req_method (plain_request ''POST'' ''/'') \<noteq> ''OPTIONS'' \<and>
      \<not> req_upgrade (plain_request ''POST'' ''/'') \<and> \<not> rate_limited (plain_request ''POST'' ''/'')"
    by (simp add: plain_request_def)
  from register_role_from_body
         [where w = toy_jose and clock = 5000 and bhash = toy_bhash and privateKey = "''PRIVATE''"
            and uuid = "''u2''" and now = 5000 and req = "plain_request ''POST'' ''/''"
            and jv = "jsonwebtoken_verify toy_jose 5000" and env = no_environment
            and net = network_down and gnow = 5000 and c = initial_cache, OF h1 h2 h3 h4]
  obtain view newUser j where
    reg: "register (jsonwebtoken_sign toy_jose 5000) toy_bhash ''PRIVATE'' ''u2'' 5000 [alice]
            mallory_body = (Registered view (render toy_jose j), [alice] @ [newUser])" and
    roles: "user_role newUser = requested_role mallory_body"
           "view_role view = requested_role mallory_body"
           "role (jwt_body j) = Some (requested_role mallory_body)" and
    gw: "req_method (plain_request ''POST'' ''/'') \<noteq> ''OPTIONS'' \<and>
         \<not> req_upgrade (plain_request ''POST'' ''/'') \<and> \<not> rate_limited (plain_request ''POST'' ''/'') \<longrightarrow>
         gateway mount_matches route_matches (jsonwebtoken_verify toy_jose 5000) no_environment
           network_down 5000 initial_cache
           ((plain_request ''POST'' ''/'')\<lparr>req_path := ''/api/auth/register''\<rparr>) =
           (Forward UserService ((plain_request ''POST'' ''/'')\<lparr>req_path := ''/api/auth/register''\<rparr>),
            initial_cache, [])"
    by blast
  have ex: "\<exists>view newUser j.
      register (jsonwebtoken_sign toy_jose 5000) toy_bhash ''PRIVATE'' ''u2'' 5000 [alice] mallory_body =
        (Registered view (render toy_jose j), [alice] @ [newUser]) \<and>
      user_role newUser = ''admin'' \<and> view_role view = ''admin'' \<and>
      role (jwt_body j) = Some ''admin''"
    using reg roles r by (intro exI [of _ view] exI [of _ newUser] exI [of _ j]) simp
  from gw p have g: "gateway mount_matches route_matches (jsonwebtoken_verify toy_jose 5000)
      no_environment network_down 5000 initial_cache
      ((plain_request ''POST'' ''/'')\<lparr>req_path := ''/api/auth/register''\<rparr>) =
      (Forward UserService ((plain_request ''POST'' ''/'')\<lparr>req_path := ''/api/auth/register''\<rparr>),
       initial_cache, [])"
    by blast
  show ?thesis
    using h1 h2 h3 h4 ex p g by blast
qed

end
